theory Spec2Isabelle
  imports Complex_Main "HOL-Library.Multiset" "HOL-Library.Char_ord" "HOL-Library.List_Lexorder" "HOL-Library.Option_ord"
begin

section \<open>Errors\<close>

text \<open>
  Every \<^verbatim>\<open>raise HTTPException(...)\<close> of the gateway is a value of \<open>http_error\<close>;
  a Python exception that escapes a service function is a value of \<open>py_exc\<close>.
  Log calls have no effect on results or on the stores and are left out.
\<close>

datatype http_error =
    Unauthorized
  | Forbidden string
  | TooManyRequests
  | NotFound string int int
  | UnprocessableEntity
  | InternalError string

datatype py_exc =
    ValueError
  | MultipleResultsFound
  | IntegrityError
  | OperationalError
  | ProgrammingError
  | ValidationError
  | AttributeError
  | KeyError

section \<open>Authentication and RBAC (app/auth.py)\<close>

datatype UserRole = LECTOR | STAFF_PUERTA | COORDINADOR

record MCPUser =
  user_id :: string
  username :: string
  role :: UserRole
  permissions :: "string list"

fun ROLE_PERMISSIONS :: "UserRole \<Rightarrow> string list" where
  "ROLE_PERMISSIONS LECTOR =
     [''getEventos'', ''getInscritos'', ''getAforo'', ''getEstadisticas'',
      ''buscarRegistro'', ''mapaSalaEvento'']"
| "ROLE_PERMISSIONS STAFF_PUERTA =
     [''getEventos'', ''getInscritos'', ''getAforo'', ''getEstadisticas'',
      ''buscarRegistro'', ''mapaSalaEvento'', ''confirmarAsistencia'']"
| "ROLE_PERMISSIONS COORDINADOR =
     [''getEventos'', ''getInscritos'', ''getAforo'', ''getEstadisticas'',
      ''buscarRegistro'', ''mapaSalaEvento'', ''confirmarAsistencia'',
      ''estadisticasDetalladas'']"





definition role_value :: "UserRole \<Rightarrow> string" where
  "role_value r =
     (case r of LECTOR \<Rightarrow> ''LECTOR'' | STAFF_PUERTA \<Rightarrow> ''STAFF_PUERTA''
      | COORDINADOR \<Rightarrow> ''COORDINADOR'')"

definition require_permission :: "string \<Rightarrow> MCPUser \<Rightarrow> http_error + MCPUser" where
  "require_permission required_permission user =
     (if required_permission \<notin> set (permissions user)
      then Inl (Forbidden (''Permission '' @ [CHR 0x27] @ required_permission
                            @ [CHR 0x27] @ '' required''))
      else Inr user)"

subsection \<open>Rate limiting\<close>

text \<open>
  \<^verbatim>\<open>RateLimiter.requests\<close> is a \<^verbatim>\<open>defaultdict(list)\<close>: a total map from keys to lists of
  timestamps, \<open>[]\<close> for a key never seen. \<^verbatim>\<open>time()\<close> is the argument \<open>now\<close>; the clock's
  floating-point seconds are read as real numbers.
\<close>

type_synonym rate_requests = "string \<Rightarrow> real list"

definition is_allowed ::
  "rate_requests \<Rightarrow> real \<Rightarrow> string \<Rightarrow> int \<Rightarrow> int \<Rightarrow> bool \<times> rate_requests" where
  "is_allowed requests now key limit window =
     (let kept = filter (\<lambda>req_time. now - req_time < of_int window) (requests key);
          requests1 = requests(key := kept)
      in if int (length kept) \<ge> limit then (False, requests1)
         else (True, requests1(key := kept @ [now])))"

record Settings =
  rate_limit_reads_per_second :: int
  rate_limit_writes_per_second :: int

definition default_settings :: Settings where
  "default_settings =
     \<lparr>rate_limit_reads_per_second = 10, rate_limit_writes_per_second = 3\<rparr>"

definition rate_key :: "MCPUser \<Rightarrow> string \<Rightarrow> string" where
  "rate_key user tool_name = user_id user @ '':'' @ tool_name"

definition tool_limit :: "Settings \<Rightarrow> string \<Rightarrow> int" where
  "tool_limit settings tool_name =
     (if tool_name \<in> set [''confirmarAsistencia'']
      then rate_limit_writes_per_second settings
      else rate_limit_reads_per_second settings)"

definition check_rate_limit ::
  "Settings \<Rightarrow> rate_requests \<Rightarrow> real \<Rightarrow> MCPUser \<Rightarrow> string
     \<Rightarrow> (http_error + unit) \<times> rate_requests" where
  "check_rate_limit settings requests now user tool_name =
     (case is_allowed requests now (rate_key user tool_name)
             (tool_limit settings tool_name) 60 of
        (False, requests') \<Rightarrow> (Inl TooManyRequests, requests')
      | (True, requests') \<Rightarrow> (Inr (), requests'))"

text \<open>A run of admission checks by one principal for one tool, at the given times.\<close>

fun check_rate_limit_seq ::
  "Settings \<Rightarrow> rate_requests \<Rightarrow> MCPUser \<Rightarrow> string \<Rightarrow> real list
     \<Rightarrow> (http_error + unit) list \<times> rate_requests" where
  "check_rate_limit_seq settings requests user tool_name [] = ([], requests)"
| "check_rate_limit_seq settings requests user tool_name (now # nows) =
     (case check_rate_limit settings requests now user tool_name of
        (r, requests') \<Rightarrow>
          (case check_rate_limit_seq settings requests' user tool_name nows of
             (rs, requests'') \<Rightarrow> (r # rs, requests'')))"

section \<open>The store (app/db/models.py)\<close>

text \<open>
  Each mapped table is a list of rows, in the order in which the engine scans it. Only the
  columns that the modelled queries read or write are kept. A \<^verbatim>\<open>Date\<close> is a day number and
  a \<^verbatim>\<open>TIMESTAMP\<close> a number of seconds. A nullable column is an \<open>option\<close>.

  The models declare foreign keys from both association tables to
  \<^verbatim>\<open>expokossodo_registros.id\<close> and \<^verbatim>\<open>expokossodo_eventos.id\<close>; whether the engine
  enforces them is the field \<open>fk_enforced\<close>. The engine's \<^verbatim>\<open>ILIKE\<close> operator is the field
  \<open>ilike\<close> (column value first, pattern second). \<open>fault\<close> tells which statement kinds the
  engine refuses with an exception (an outage, a statement it cannot run).
\<close>

type_synonym date = int
type_synonym timestamp = int

record ExpoEventos =
  ev_id :: int
  fecha :: date
  hora :: string
  sala :: string
  titulo_charla :: string
  expositor :: string
  descripcion :: "string option"
  slots_disponibles :: "int option"
  disponible :: "bool option"

record ExpoRegistros =
  reg_id :: int
  nombres :: string
  correo :: string
  empresa :: "string option"
  qr_code :: "string option"

record ExpoRegistroEventos =
  re_id :: int
  re_registro_id :: int
  re_evento_id :: int
  fecha_seleccion :: "timestamp option"

record ExpoAsistenciasPorSala =
  as_id :: int
  as_registro_id :: int
  as_evento_id :: int
  qr_escaneado :: string
  fecha_ingreso :: "timestamp option"
  asesor_verificador :: string
  ip_verificacion :: "string option"
  notas :: "string option"

datatype stmt_kind =
    CountInscritos | CountAsistieron | LeadsPorFuente | EventosPopulares

record db =
  eventos :: "ExpoEventos list"
  registros :: "ExpoRegistros list"
  registro_eventos :: "ExpoRegistroEventos list"
  asistencias_por_sala :: "ExpoAsistenciasPorSala list"
  fk_enforced :: bool
  ilike :: "string \<Rightarrow> string \<Rightarrow> bool"
  fault :: "stmt_kind \<Rightarrow> py_exc option"

subsection \<open>Python and SQLAlchemy helpers\<close>

text \<open>Truthiness of an \<^verbatim>\<open>Optional[str]\<close>: \<^verbatim>\<open>None\<close> and the empty string are false.\<close>

definition truthy :: "string option \<Rightarrow> bool" where
  "truthy s = (case s of None \<Rightarrow> False | Some v \<Rightarrow> v \<noteq> [])"

text \<open>\<^verbatim>\<open>str\<close> of an \<^verbatim>\<open>int\<close>, as an f-string formats it.\<close>

fun str_nat :: "nat \<Rightarrow> string" where
  "str_nat n =
     (if n < 10 then [''0123456789'' ! n]
      else str_nat (n div 10) @ [''0123456789'' ! (n mod 10)])"

declare str_nat.simps [simp del]

definition str_int :: "int \<Rightarrow> string" where
  "str_int i = (if i < 0 then ''-'' @ str_nat (nat (- i)) else str_nat (nat i))"

text \<open>\<^verbatim>\<open>Result.scalar_one_or_none()\<close> raises when more than one row matches.\<close>

fun scalar_one_or_none :: "'a list \<Rightarrow> py_exc + 'a option" where
  "scalar_one_or_none [] = Inr None"
| "scalar_one_or_none [x] = Inr (Some x)"
| "scalar_one_or_none (x # y # ys) = Inl MultipleResultsFound"

text \<open>\<^verbatim>\<open>Result.scalar()\<close>: the first column of the first row, \<^verbatim>\<open>None\<close> without rows.\<close>

fun scalar :: "'a option list \<Rightarrow> 'a option" where
  "scalar [] = None"
| "scalar (x # xs) = x"

text \<open>The next value of an \<^verbatim>\<open>AUTO_INCREMENT\<close> primary key: above every key in use.\<close>

definition next_as_id :: "ExpoAsistenciasPorSala list \<Rightarrow> int" where
  "next_as_id rows = foldr max (map as_id rows) 0 + 1"

section \<open>Attendance confirmation\<close>

subsection \<open>AsistenciaQueries.confirmar\_asistencia (app/db/queries.py)\<close>

text \<open>
  \<open>db_now\<close> is the engine's \<^verbatim>\<open>current_timestamp()\<close>. On the update path the loaded row
  is changed and flushed by primary key. On the create path the commit raises
  \<^verbatim>\<open>IntegrityError\<close> when the foreign keys are enforced and a referenced row is missing.
  An exception leaves the store as it was (the session is rolled back and closed).
  Identifiers, names and notes are taken to fit their columns (\<^verbatim>\<open>Integer\<close>,
  \<^verbatim>\<open>String(100)\<close>, \<^verbatim>\<open>String(45)\<close>); what the engine does with a value that does not is not
  modelled. The function below is one call that runs from its first \<^verbatim>\<open>SELECT\<close> to its
  commit with no other call in between.
\<close>

definition same_pair :: "int \<Rightarrow> int \<Rightarrow> ExpoAsistenciasPorSala \<Rightarrow> bool" where
  "same_pair registro_id evento_id a =
     (as_registro_id a = registro_id \<and> as_evento_id a = evento_id)"

definition references_exist :: "db \<Rightarrow> int \<Rightarrow> int \<Rightarrow> bool" where
  "references_exist d registro_id evento_id =
     (registro_id \<in> set (map reg_id (registros d))
      \<and> evento_id \<in> set (map ev_id (eventos d)))"

definition manual_qr :: "int \<Rightarrow> int \<Rightarrow> string" where
  "manual_qr registro_id evento_id =
     ''manual_'' @ str_int registro_id @ ''_'' @ str_int evento_id"

definition Q_confirmar_asistencia ::
  "db \<Rightarrow> timestamp \<Rightarrow> int \<Rightarrow> int \<Rightarrow> string \<Rightarrow> string \<Rightarrow> string option
     \<Rightarrow> string option \<Rightarrow> py_exc + (bool \<times> db)" where
  "Q_confirmar_asistencia d db_now registro_id evento_id estado asesor observacion ip =
     (case scalar_one_or_none
             (filter (same_pair registro_id evento_id) (asistencias_por_sala d)) of
        Inl e \<Rightarrow> Inl e
      | Inr (Some existing) \<Rightarrow>
          (let e1 = existing\<lparr>asesor_verificador := asesor, fecha_ingreso := Some db_now\<rparr>;
               e2 = (if truthy observacion then e1\<lparr>notas := observacion\<rparr> else e1);
               e3 = (if truthy ip then e2\<lparr>ip_verificacion := ip\<rparr> else e2)
           in Inr (True,
                   d\<lparr>asistencias_por_sala :=
                        map (\<lambda>a. if as_id a = as_id existing then e3 else a)
                            (asistencias_por_sala d)\<rparr>))
      | Inr None \<Rightarrow>
          (let qr = scalar (map qr_code
                              (filter (\<lambda>r. reg_id r = registro_id) (registros d)));
               new_asistencia =
                 \<lparr>as_id = next_as_id (asistencias_por_sala d),
                  as_registro_id = registro_id,
                  as_evento_id = evento_id,
                  qr_escaneado =
                    (if truthy qr then the qr else manual_qr registro_id evento_id),
                  fecha_ingreso = Some db_now,
                  asesor_verificador = asesor,
                  ip_verificacion = ip,
                  notas = observacion\<rparr>
           in if fk_enforced d \<and> \<not> references_exist d registro_id evento_id
              then Inl IntegrityError
              else Inr (True,
                        d\<lparr>asistencias_por_sala :=
                             asistencias_por_sala d @ [new_asistencia]\<rparr>)))"

subsection \<open>ConfirmarAsistenciaInput (app/schemas/tools\_in.py)\<close>

record ConfirmarAsistenciaInput =
  registroId :: int
  eventoId :: int
  estado :: string
  observacion :: "string option"

text \<open>
  The application imports \<^verbatim>\<open>BaseSettings\<close> from \<^verbatim>\<open>pydantic\<close> (app/config.py), which only
  pydantic 1 provides. There \<^verbatim>\<open>Field(pattern=...)\<close> is not a constraint: the pattern on
  \<^verbatim>\<open>estado\<close> is not enforced and any string is accepted. \<^verbatim>\<open>max_length\<close> is enforced.
\<close>

definition valid_ConfirmarAsistenciaInput :: "ConfirmarAsistenciaInput \<Rightarrow> bool" where
  "valid_ConfirmarAsistenciaInput i =
     (case observacion i of None \<Rightarrow> True | Some s \<Rightarrow> length s \<le> 500)"

record ConfirmarAsistenciaOutput =
  out_ok :: bool
  out_timestamp :: timestamp
  out_registroId :: int
  out_eventoId :: int

subsection \<open>AsistenciaService.confirmar\_asistencia (app/services/asistencia.py)\<close>

text \<open>\<open>utc_now\<close> is \<^verbatim>\<open>datetime.utcnow()\<close>. The \<^verbatim>\<open>except\<close> clause logs and re-raises.\<close>

definition S_confirmar_asistencia ::
  "db \<Rightarrow> timestamp \<Rightarrow> timestamp \<Rightarrow> ConfirmarAsistenciaInput \<Rightarrow> string \<Rightarrow> string option
     \<Rightarrow> py_exc + (ConfirmarAsistenciaOutput option \<times> db)" where
  "S_confirmar_asistencia d db_now utc_now input_data asesor ip =
     (case Q_confirmar_asistencia d db_now (registroId input_data) (eventoId input_data)
             (estado input_data) asesor (observacion input_data) ip of
        Inl e \<Rightarrow> Inl e
      | Inr (success, d') \<Rightarrow>
          if \<not> success then Inr (None, d')
          else Inr (Some \<lparr>out_ok = True, out_timestamp = utc_now,
                          out_registroId = registroId input_data,
                          out_eventoId = eventoId input_data\<rparr>, d'))"

subsection \<open>The confirmarAsistencia endpoint (app/api/tools.py)\<close>

text \<open>
  The dependency \<^verbatim>\<open>require_permission("confirmarAsistencia")\<close> runs first (403), then the
  request body is validated against the schema (422), then the rate limit (429), then
  the service. A \<^verbatim>\<open>None\<close> from the service becomes 404; any other exception becomes 500.
  The state is the rate limiter's windows and the store.
\<close>

record gateway =
  gw_requests :: rate_requests
  gw_db :: db

definition confirmar_asistencia ::
  "Settings \<Rightarrow> gateway \<Rightarrow> real \<Rightarrow> timestamp \<Rightarrow> timestamp \<Rightarrow> MCPUser
     \<Rightarrow> ConfirmarAsistenciaInput \<Rightarrow> string option
     \<Rightarrow> (http_error + ConfirmarAsistenciaOutput) \<times> gateway" where
  "confirmar_asistencia settings g now db_now utc_now user input_data client_ip =
     (case require_permission ''confirmarAsistencia'' user of
        Inl e \<Rightarrow> (Inl e, g)
      | Inr u \<Rightarrow>
          if \<not> valid_ConfirmarAsistenciaInput input_data then (Inl UnprocessableEntity, g)
          else
          (case check_rate_limit settings (gw_requests g) now u ''confirmarAsistencia'' of
             (Inl e, rq) \<Rightarrow> (Inl e, g\<lparr>gw_requests := rq\<rparr>)
           | (Inr _, rq) \<Rightarrow>
               (case S_confirmar_asistencia (gw_db g) db_now utc_now input_data
                       (username u) client_ip of
                  Inl exc \<Rightarrow>
                    (Inl (InternalError ''Error confirming attendance''),
                     g\<lparr>gw_requests := rq\<rparr>)
                | Inr (None, d') \<Rightarrow>
                    (Inl (NotFound ''Registration or event not found''
                            (registroId input_data) (eventoId input_data)),
                     g\<lparr>gw_requests := rq, gw_db := d'\<rparr>)
                | Inr (Some result, d') \<Rightarrow>
                    (Inr result, g\<lparr>gw_requests := rq, gw_db := d'\<rparr>))))"

text \<open>
  A run of confirmations for one (registration, event) pair at the query layer, each call
  finished before the next begins (calls that overlap are modelled further down). Each
  call brings its own status, verifier, note, address and time. A call that raises changes
  nothing and the run goes on.
\<close>

record confirm_call =
  c_estado :: string
  c_asesor :: string
  c_observacion :: "string option"
  c_ip :: "string option"
  c_now :: timestamp

definition confirm_step :: "int \<Rightarrow> int \<Rightarrow> db \<Rightarrow> confirm_call \<Rightarrow> db" where
  "confirm_step registro_id evento_id d c =
     (case Q_confirmar_asistencia d (c_now c) registro_id evento_id (c_estado c)
             (c_asesor c) (c_observacion c) (c_ip c) of
        Inl e \<Rightarrow> d
      | Inr (ok, d') \<Rightarrow> d')"

definition confirm_calls :: "int \<Rightarrow> int \<Rightarrow> db \<Rightarrow> confirm_call list \<Rightarrow> db" where
  "confirm_calls registro_id evento_id d cs = foldl (confirm_step registro_id evento_id) d cs"

text \<open>
  The store's primary-key constraint on the attendance table, and the rows of one
  (registration, event) pair.
\<close>

definition pk_asistencias :: "db \<Rightarrow> bool" where
  "pk_asistencias d = distinct (map as_id (asistencias_por_sala d))"

definition pair_rows :: "db \<Rightarrow> int \<Rightarrow> int \<Rightarrow> ExpoAsistenciasPorSala list" where
  "pair_rows d registro_id evento_id =
     filter (same_pair registro_id evento_id) (asistencias_por_sala d)"

text \<open>An empty store whose engine does not enforce the foreign keys.\<close>

definition empty_db :: db where
  "empty_db = \<lparr>eventos = [], registros = [], registro_eventos = [],
               asistencias_por_sala = [], fk_enforced = False,
               ilike = (\<lambda>_ _. True), fault = (\<lambda>_. None)\<rparr>"

subsection \<open>Overlapping confirmations\<close>

text \<open>
  The query function suspends at each \<^verbatim>\<open>await\<close>: after its first \<^verbatim>\<open>SELECT\<close> and before its
  commit. Every request has a session of its own (app/db/session.py), nothing locks the
  pair, and the attendance table has no unique key on \<^verbatim>\<open>(registro_id, evento_id)\<close>. On the
  shared store a call is therefore two steps: the \<^verbatim>\<open>SELECT\<close>, which loads the row of the
  pair if there is one, and the commit, which writes what the call decided from what it
  loaded. On the update path the commit updates, by primary key, the columns that the call
  assigned; on the create path it inserts the new row, with the QR code read just before.
\<close>

definition Q_select :: "db \<Rightarrow> int \<Rightarrow> int \<Rightarrow> py_exc + ExpoAsistenciasPorSala option" where
  "Q_select d registro_id evento_id =
     scalar_one_or_none (filter (same_pair registro_id evento_id) (asistencias_por_sala d))"

definition Q_commit ::
  "db \<Rightarrow> timestamp \<Rightarrow> int \<Rightarrow> int \<Rightarrow> string \<Rightarrow> string option \<Rightarrow> string option
     \<Rightarrow> ExpoAsistenciasPorSala option \<Rightarrow> py_exc + (bool \<times> db)" where
  "Q_commit d db_now registro_id evento_id asesor observacion' ip loaded =
     (case loaded of
        Some existing \<Rightarrow>
          Inr (True,
               d\<lparr>asistencias_por_sala :=
                    map (\<lambda>a. if as_id a = as_id existing
                             then (let e1 = a\<lparr>asesor_verificador := asesor,
                                               fecha_ingreso := Some db_now\<rparr>;
                                       e2 = (if truthy observacion'
                                             then e1\<lparr>notas := observacion'\<rparr> else e1)
                                   in if truthy ip then e2\<lparr>ip_verificacion := ip\<rparr> else e2)
                             else a)
                        (asistencias_por_sala d)\<rparr>)
      | None \<Rightarrow>
          (let qr = scalar (map qr_code
                              (filter (\<lambda>r. reg_id r = registro_id) (registros d)));
               new_asistencia =
                 \<lparr>as_id = next_as_id (asistencias_por_sala d),
                  as_registro_id = registro_id,
                  as_evento_id = evento_id,
                  qr_escaneado =
                    (if truthy qr then the qr else manual_qr registro_id evento_id),
                  fecha_ingreso = Some db_now,
                  asesor_verificador = asesor,
                  ip_verificacion = ip,
                  notas = observacion'\<rparr>
           in if fk_enforced d \<and> \<not> references_exist d registro_id evento_id
              then Inl IntegrityError
              else Inr (True,
                        d\<lparr>asistencias_por_sala :=
                             asistencias_por_sala d @ [new_asistencia]\<rparr>)))"

text \<open>
  A schedule interleaves the two steps of several calls for one pair: \<open>Select i\<close> is the
  \<^verbatim>\<open>SELECT\<close> of call \<open>i\<close>, \<open>Commit i\<close> its commit. The state is the store and what each call
  in flight has loaded. A call whose \<^verbatim>\<open>SELECT\<close> raises ends there; a commit of a call that
  is not in flight does nothing.
\<close>

datatype sched_event = Select nat | Commit nat

type_synonym in_flight = "nat \<Rightarrow> ExpoAsistenciasPorSala option option"

definition sched_step ::
  "int \<Rightarrow> int \<Rightarrow> confirm_call list \<Rightarrow> db \<times> in_flight \<Rightarrow> sched_event \<Rightarrow> db \<times> in_flight" where
  "sched_step registro_id evento_id calls st ev =
     (case ev of
        Select i \<Rightarrow>
          (if i < length calls
           then (case Q_select (fst st) registro_id evento_id of
                   Inl e \<Rightarrow> (fst st, (snd st)(i := None))
                 | Inr loaded \<Rightarrow> (fst st, (snd st)(i := Some loaded)))
           else st)
      | Commit i \<Rightarrow>
          (case snd st i of
             None \<Rightarrow> st
           | Some loaded \<Rightarrow>
               (case Q_commit (fst st) (c_now (calls ! i)) registro_id evento_id
                       (c_asesor (calls ! i)) (c_observacion (calls ! i))
                       (c_ip (calls ! i)) loaded of
                  Inl e \<Rightarrow> (fst st, (snd st)(i := None))
                | Inr (ok, d') \<Rightarrow> (d', (snd st)(i := None)))))"

definition run_schedule ::
  "int \<Rightarrow> int \<Rightarrow> confirm_call list \<Rightarrow> db \<Rightarrow> sched_event list \<Rightarrow> db" where
  "run_schedule registro_id evento_id calls d events =
     fst (foldl (sched_step registro_id evento_id calls) (d, \<lambda>_. None) events)"

section \<open>Registered attendees (getInscritos)\<close>

subsection \<open>Statement helpers\<close>

text \<open>
  \<^verbatim>\<open>ORDER BY key DESC\<close>: rows with larger keys first, rows with equal keys in the order
  in which the engine produced them, \<^verbatim>\<open>NULL\<close> (\<open>None\<close>) below every value.
\<close>

fun insert_desc :: "('a \<Rightarrow> 'k::linorder) \<Rightarrow> 'a \<Rightarrow> 'a list \<Rightarrow> 'a list" where
  "insert_desc k x [] = [x]"
| "insert_desc k x (y # ys) =
     (if k y \<le> k x then x # y # ys else y # insert_desc k x ys)"

definition order_by_desc :: "('a \<Rightarrow> 'k::linorder) \<Rightarrow> 'a list \<Rightarrow> 'a list" where
  "order_by_desc k xs = foldr (insert_desc k) xs []"

text \<open>
  \<^verbatim>\<open>.limit(n).offset(m)\<close>: the engine refuses a negative \<^verbatim>\<open>LIMIT\<close> or \<^verbatim>\<open>OFFSET\<close>.
\<close>

definition limit_offset :: "int \<Rightarrow> int \<Rightarrow> 'a list \<Rightarrow> py_exc + 'a list" where
  "limit_offset page_size offset xs =
     (if page_size < 0 \<or> offset < 0 then Inl ProgrammingError
      else Inr (take (nat page_size) (drop (nat offset) xs)))"

text \<open>Truthiness of an \<^verbatim>\<open>Optional[int]\<close>: \<^verbatim>\<open>None\<close> and \<open>0\<close> are false.\<close>

definition truthy_int :: "int option \<Rightarrow> bool" where
  "truthy_int n = (case n of None \<Rightarrow> False | Some v \<Rightarrow> v \<noteq> 0)"

subsection \<open>InscritosQueries (app/db/queries.py)\<close>

text \<open>The dictionaries that the two queries build for each row.\<close>

record inscrito_item =
  it_registroId :: int
  it_nombre :: string
  it_empresa :: "string option"
  it_email :: string
  it_estado :: string
  it_creadoEn :: "timestamp option"

definition inscrito_item_of :: "ExpoRegistroEventos \<times> ExpoRegistros \<Rightarrow> inscrito_item" where
  "inscrito_item_of row =
     \<lparr>it_registroId = reg_id (snd row),
      it_nombre = nombres (snd row),
      it_empresa = empresa (snd row),
      it_email = correo (snd row),
      it_estado = ''INSCRITO'',
      it_creadoEn = fecha_seleccion (fst row)\<rparr>"

text \<open>
  \<^verbatim>\<open>ExpoRegistroEventos.__table__.join(ExpoRegistros.__table__)\<close>: the inner join on the
  foreign key \<^verbatim>\<open>registro_id\<close>.
\<close>

definition join_registros ::
  "db \<Rightarrow> (ExpoRegistroEventos \<times> ExpoRegistros) list" where
  "join_registros d =
     concat (map (\<lambda>re. map (\<lambda>r. (re, r))
                           (filter (\<lambda>r. re_registro_id re = reg_id r) (registros d)))
                 (registro_eventos d))"

definition get_inscritos_by_evento ::
  "db \<Rightarrow> int \<Rightarrow> string option \<Rightarrow> int \<Rightarrow> int \<Rightarrow> py_exc + (int \<times> inscrito_item list)" where
  "get_inscritos_by_evento d evento_id estado_inscripcion page page_size =
     (let matching = filter (\<lambda>row. re_evento_id (fst row) = evento_id) (join_registros d);
          total_rows = int (length matching);
          offset = (page - 1) * page_size
      in case limit_offset page_size offset
                (order_by_desc (\<lambda>row. fecha_seleccion (fst row)) matching) of
           Inl e \<Rightarrow> Inl e
         | Inr rows \<Rightarrow> Inr (total_rows, map inscrito_item_of rows))"

text \<open>
  The second query joins the events as well, on the foreign key \<^verbatim>\<open>evento_id\<close>, and
  keeps the conditions whose filter value is truthy.
\<close>

definition join_registros_eventos ::
  "db \<Rightarrow> ((ExpoRegistroEventos \<times> ExpoRegistros) \<times> ExpoEventos) list" where
  "join_registros_eventos d =
     concat (map (\<lambda>row. map (\<lambda>ev. (row, ev))
                            (filter (\<lambda>ev. re_evento_id (fst row) = ev_id ev) (eventos d)))
                 (join_registros d))"

definition get_inscritos_by_filters ::
  "db \<Rightarrow> date option \<Rightarrow> string option \<Rightarrow> string option \<Rightarrow> int \<Rightarrow> int
     \<Rightarrow> py_exc + (int \<times> inscrito_item list)" where
  "get_inscritos_by_filters d dia sala_filter estado_inscripcion page page_size =
     (let conditions =
            (case dia of None \<Rightarrow> [] | Some day \<Rightarrow> [\<lambda>ev. fecha ev = day])
            @ (if truthy sala_filter
               then [\<lambda>ev. ilike d (sala ev) (''%'' @ the sala_filter @ ''%'')] else []);
          matching = filter (\<lambda>row. list_all (\<lambda>c. c (snd row)) conditions)
                            (join_registros_eventos d);
          total_rows = int (length matching);
          offset = (page - 1) * page_size
      in case limit_offset page_size offset
                (order_by_desc (\<lambda>row. fecha_seleccion (fst (fst row))) matching) of
           Inl e \<Rightarrow> Inl e
         | Inr rows \<Rightarrow> Inr (total_rows, map (\<lambda>row. inscrito_item_of (fst row)) rows))"

subsection \<open>GetInscritosInput (app/schemas/tools\_in.py)\<close>

record GetInscritosInput =
  gi_eventoId :: "int option"
  gi_dia :: "date option"
  gi_sala :: "string option"
  gi_estadoInscripcion :: "string option"
  gi_page :: int
  gi_pageSize :: int

text \<open>
  The \<^verbatim>\<open>pre=True\<close> validator runs before the field constraints. Under pydantic 1 the
  \<^verbatim>\<open>pattern\<close> on \<^verbatim>\<open>estadoInscripcion\<close> is not enforced; the bounds \<^verbatim>\<open>ge\<close> and \<^verbatim>\<open>le\<close> are.
\<close>

definition empty_string_to_none :: "string option \<Rightarrow> string option" where
  "empty_string_to_none v = (if v = Some [] then None else v)"

definition parse_GetInscritosInput :: "GetInscritosInput \<Rightarrow> GetInscritosInput option" where
  "parse_GetInscritosInput body =
     (let i = body\<lparr>gi_sala := empty_string_to_none (gi_sala body),
                   gi_estadoInscripcion :=
                     empty_string_to_none (gi_estadoInscripcion body)\<rparr>
      in if 1 \<le> gi_page i \<and> 1 \<le> gi_pageSize i \<and> gi_pageSize i \<le> 100
         then Some i else None)"

subsection \<open>InscritoInfo and GetInscritosOutput (app/schemas/tools\_out.py)\<close>

record InscritoInfo =
  in_registroId :: int
  in_nombre :: string
  in_empresa :: "string option"
  in_email :: string
  in_estado :: string
  in_creadoEn :: timestamp

record GetInscritosOutput =
  go_total :: int
  go_page :: int
  go_pageSize :: int
  go_lista :: "InscritoInfo list"

text \<open>\<^verbatim>\<open>creadoEn: datetime\<close> is required: a \<^verbatim>\<open>None\<close> fails the model's validation.\<close>

definition InscritoInfo_of :: "inscrito_item \<Rightarrow> py_exc + InscritoInfo" where
  "InscritoInfo_of item =
     (case it_creadoEn item of
        None \<Rightarrow> Inl ValidationError
      | Some t \<Rightarrow>
          Inr \<lparr>in_registroId = it_registroId item, in_nombre = it_nombre item,
               in_empresa = it_empresa item, in_email = it_email item,
               in_estado = it_estado item, in_creadoEn = t\<rparr>)"

fun InscritoInfo_list :: "inscrito_item list \<Rightarrow> py_exc + InscritoInfo list" where
  "InscritoInfo_list [] = Inr []"
| "InscritoInfo_list (item # items) =
     (case InscritoInfo_of item of
        Inl e \<Rightarrow> Inl e
      | Inr x \<Rightarrow>
          (case InscritoInfo_list items of
             Inl e \<Rightarrow> Inl e
           | Inr xs \<Rightarrow> Inr (x # xs)))"

subsection \<open>InscritosService.get\_inscritos (app/services/inscritos.py)\<close>

definition S_get_inscritos :: "db \<Rightarrow> GetInscritosInput \<Rightarrow> py_exc + GetInscritosOutput" where
  "S_get_inscritos d input_data =
     (case (if truthy_int (gi_eventoId input_data)
            then get_inscritos_by_evento d (the (gi_eventoId input_data))
                   (gi_estadoInscripcion input_data) (gi_page input_data)
                   (gi_pageSize input_data)
            else get_inscritos_by_filters d (gi_dia input_data) (gi_sala input_data)
                   (gi_estadoInscripcion input_data) (gi_page input_data)
                   (gi_pageSize input_data)) of
        Inl e \<Rightarrow> Inl e
      | Inr (total_rows, lista_data) \<Rightarrow>
          (case InscritoInfo_list lista_data of
             Inl e \<Rightarrow> Inl e
           | Inr lista \<Rightarrow>
               Inr \<lparr>go_total = total_rows, go_page = gi_page input_data,
                    go_pageSize = gi_pageSize input_data, go_lista = lista\<rparr>))"

subsection \<open>The getInscritos endpoint (app/api/tools.py)\<close>

text \<open>
  The permission dependency, the schema, the rate limit, the service. The argument
  \<open>body\<close> is the request body as sent. The endpoint reads the store and changes only the
  rate limiter's windows.
\<close>

definition get_inscritos ::
  "Settings \<Rightarrow> gateway \<Rightarrow> real \<Rightarrow> MCPUser \<Rightarrow> GetInscritosInput
     \<Rightarrow> (http_error + GetInscritosOutput) \<times> gateway" where
  "get_inscritos settings g now user body =
     (case require_permission ''getInscritos'' user of
        Inl e \<Rightarrow> (Inl e, g)
      | Inr u \<Rightarrow>
          (case parse_GetInscritosInput body of
             None \<Rightarrow> (Inl UnprocessableEntity, g)
           | Some input_data \<Rightarrow>
               (case check_rate_limit settings (gw_requests g) now u ''getInscritos'' of
                  (Inl e, rq) \<Rightarrow> (Inl e, g\<lparr>gw_requests := rq\<rparr>)
                | (Inr _, rq) \<Rightarrow>
                    (case S_get_inscritos (gw_db g) input_data of
                       Inl exc \<Rightarrow>
                         (Inl (InternalError ''Error retrieving inscribed users''),
                          g\<lparr>gw_requests := rq\<rparr>)
                     | Inr result \<Rightarrow> (Inr result, g\<lparr>gw_requests := rq\<rparr>)))))"

text \<open>A store with two registrations for event 123 and one for event 124.\<close>

definition sample_db :: db where
  "sample_db =
     \<lparr>eventos =
        [\<lparr>ev_id = 123, fecha = 20, hora = ''10:00'', sala = ''A'', titulo_charla = ''T1'',
          expositor = ''X'', descripcion = None, slots_disponibles = Some 60,
          disponible = Some True\<rparr>,
         \<lparr>ev_id = 124, fecha = 21, hora = ''11:00'', sala = ''B'', titulo_charla = ''T2'',
          expositor = ''Y'', descripcion = None, slots_disponibles = Some 60,
          disponible = Some True\<rparr>],
      registros =
        [\<lparr>reg_id = 1, nombres = ''Ana'', correo = ''ana@x.pe'', empresa = Some ''Acme'',
          qr_code = None\<rparr>,
         \<lparr>reg_id = 2, nombres = ''Luz'', correo = ''luz@x.pe'', empresa = Some ''Beta'',
          qr_code = None\<rparr>],
      registro_eventos =
        [\<lparr>re_id = 1, re_registro_id = 1, re_evento_id = 123, fecha_seleccion = Some 100\<rparr>,
         \<lparr>re_id = 2, re_registro_id = 2, re_evento_id = 123, fecha_seleccion = Some 200\<rparr>,
         \<lparr>re_id = 3, re_registro_id = 1, re_evento_id = 124, fecha_seleccion = Some 300\<rparr>],
      asistencias_por_sala = [], fk_enforced = True,
      ilike = (\<lambda>_ _. True), fault = (\<lambda>_. None)\<rparr>"

section \<open>Statistics (getEstadisticas)\<close>

subsection \<open>Statement helpers\<close>

text \<open>
  An inner join on a foreign key, rows in the order of the left table. A date range
  condition on the event of a joined row. \<^verbatim>\<open>GROUP BY\<close> with \<^verbatim>\<open>COUNT\<close>: one row per key, in
  the order in which the keys are first met. \<open>execute\<close> runs a statement of the given kind:
  it raises when the store refuses that kind.
\<close>

definition inner_join :: "'a list \<Rightarrow> 'b list \<Rightarrow> ('a \<Rightarrow> 'b \<Rightarrow> bool) \<Rightarrow> ('a \<times> 'b) list" where
  "inner_join xs ys cond = concat (map (\<lambda>x. map (Pair x) (filter (cond x) ys)) xs)"

text \<open>
  Every statement of app/services/estadisticas.py takes its \<^verbatim>\<open>FROM\<close> clause from
  \<^verbatim>\<open>Model.join(Other)\<close>, called on the mapped class itself. A mapped class has no attribute
  \<^verbatim>\<open>join\<close> (app/db/queries.py calls \<^verbatim>\<open>Model.__table__.join\<close>), so the call raises
  \<^verbatim>\<open>AttributeError\<close> while the statement is being built, before anything is sent to the
  store.
\<close>

definition mapped_class_join ::
  "'a list \<Rightarrow> 'b list \<Rightarrow> ('a \<Rightarrow> 'b \<Rightarrow> bool) \<Rightarrow> py_exc + ('a \<times> 'b) list" where
  "mapped_class_join xs ys cond = Inl AttributeError"

definition in_range :: "date \<Rightarrow> date \<Rightarrow> ExpoEventos \<Rightarrow> bool" where
  "in_range fecha_inicio fecha_fin ev = (fecha_inicio \<le> fecha ev \<and> fecha ev \<le> fecha_fin)"

fun group_keys :: "'k list \<Rightarrow> 'k list" where
  "group_keys [] = []"
| "group_keys (k # ks) = k # filter (\<lambda>j. j \<noteq> k) (group_keys ks)"

definition group_count :: "('a \<Rightarrow> 'k) \<Rightarrow> 'a list \<Rightarrow> ('k \<times> int) list" where
  "group_count key rows =
     map (\<lambda>k. (k, int (length (filter (\<lambda>r. key r = k) rows)))) (group_keys (map key rows))"

definition execute :: "db \<Rightarrow> stmt_kind \<Rightarrow> 'a \<Rightarrow> py_exc + 'a" where
  "execute d kind result = (case fault d kind of Some e \<Rightarrow> Inl e | None \<Rightarrow> Inr result)"

text \<open>\<^verbatim>\<open>x or 0\<close> for an \<^verbatim>\<open>Optional[int]\<close>.\<close>

definition or_0 :: "int option \<Rightarrow> int" where
  "or_0 v = (case v of None \<Rightarrow> 0 | Some n \<Rightarrow> n)"

subsection \<open>KpiInfo and GetEstadisticasOutput (app/schemas/tools\_out.py)\<close>

text \<open>
  \<^verbatim>\<open>valor: Any\<close> holds an \<^verbatim>\<open>int\<close> or a \<^verbatim>\<open>float\<close>; floats are read as real
  numbers. \<^verbatim>\<open>detalle\<close> is a dictionary, kept as the list of its items in insertion order.
  The text \<^verbatim>\<open>f"{fecha_inicio} a {fecha_fin}"\<close> is kept as the pair of its two dates.
\<close>

datatype kpi_valor = VInt int | VFloat real

datatype detalle_value =
    DStr string
  | DVal kpi_valor
  | DPeriodo date date
  | DFuentes "(string \<times> int) list"
  | DEventos "(int \<times> string \<times> string \<times> int) list"

record KpiInfo =
  kp_nombre :: string
  kp_valor :: kpi_valor
  kp_detalle :: "(string \<times> detalle_value) list"

record GetEstadisticasOutput =
  eo_kpis :: "KpiInfo list"
  eo_granularidad :: string
  eo_periodo :: "string \<times> string"

text \<open>
  \<^verbatim>\<open>round(x, ndigits)\<close>: an \<^verbatim>\<open>int\<close> is returned unchanged for \<open>ndigits \<ge> 0\<close>; a
  \<^verbatim>\<open>float\<close> is rounded to the nearest multiple of \<open>10\<^sup>-\<^sup>n\<close>, halves to the even one.
\<close>

definition round_half_even :: "real \<Rightarrow> int" where
  "round_half_even x =
     (let f = \<lfloor>x\<rfloor>; r = x - of_int f
      in if r < 1 / 2 then f
         else if 1 / 2 < r then f + 1
         else if even f then f else f + 1)"

definition py_round :: "kpi_valor \<Rightarrow> nat \<Rightarrow> kpi_valor" where
  "py_round v ndigits =
     (case v of
        VInt n \<Rightarrow> VInt n
      | VFloat x \<Rightarrow> VFloat (of_int (round_half_even (x * 10 ^ ndigits)) / 10 ^ ndigits))"

subsection \<open>The statements of EstadisticasService (app/services/estadisticas.py)\<close>

text \<open>
  Each statement is built, then executed. What follows the join is what the statement
  would select from the joined rows.
\<close>

definition inscritos_stmt :: "db \<Rightarrow> date \<Rightarrow> date \<Rightarrow> py_exc + int option list" where
  "inscritos_stmt d fecha_inicio fecha_fin =
     (case mapped_class_join (registro_eventos d) (eventos d)
             (\<lambda>re ev. re_evento_id re = ev_id ev) of
        Inl e \<Rightarrow> Inl e
      | Inr joined \<Rightarrow>
          execute d CountInscritos
            [Some (int (length
               (filter (\<lambda>row. in_range fecha_inicio fecha_fin (snd row)) joined)))])"

definition asistieron_stmt :: "db \<Rightarrow> date \<Rightarrow> date \<Rightarrow> py_exc + int option list" where
  "asistieron_stmt d fecha_inicio fecha_fin =
     (case mapped_class_join (asistencias_por_sala d) (eventos d)
             (\<lambda>a ev. as_evento_id a = ev_id ev) of
        Inl e \<Rightarrow> Inl e
      | Inr joined \<Rightarrow>
          execute d CountAsistieron
            [Some (int (length
               (filter (\<lambda>row. in_range fecha_inicio fecha_fin (snd row)) joined)))])"

text \<open>
  The leads statement groups the registrations in range by the organisation column, labels
  each group with \<^verbatim>\<open>coalesce(empresa, "Sin empresa")\<close>, orders by the count alone, descending,
  and keeps ten rows.
\<close>

definition leads_stmt :: "db \<Rightarrow> date \<Rightarrow> date \<Rightarrow> py_exc + (string \<times> int) list" where
  "leads_stmt d fecha_inicio fecha_fin =
     (case mapped_class_join (registros d) (registro_eventos d)
             (\<lambda>r re. re_registro_id re = reg_id r) of
        Inl e \<Rightarrow> Inl e
      | Inr joined \<Rightarrow>
          execute d LeadsPorFuente
            (take 10 (order_by_desc snd
               (map (\<lambda>grp. (case fst grp of None \<Rightarrow> ''Sin empresa'' | Some s \<Rightarrow> s,
                            snd grp))
                  (group_count (\<lambda>row. empresa (fst (fst row)))
                     (filter (\<lambda>row. in_range fecha_inicio fecha_fin (snd row))
                        (inner_join joined (eventos d)
                           (\<lambda>row ev. re_evento_id (snd row) = ev_id ev))))))))"

definition eventos_stmt ::
  "db \<Rightarrow> date \<Rightarrow> date \<Rightarrow> py_exc + (int \<times> string \<times> string \<times> int) list" where
  "eventos_stmt d fecha_inicio fecha_fin =
     (case mapped_class_join (eventos d) (registro_eventos d)
             (\<lambda>ev re. re_evento_id re = ev_id ev) of
        Inl e \<Rightarrow> Inl e
      | Inr joined \<Rightarrow>
          execute d EventosPopulares
            (take 10 (order_by_desc (\<lambda>row. snd (snd (snd row)))
               (map (\<lambda>grp. (fst (fst grp), fst (snd (fst grp)), snd (snd (fst grp)),
                            snd grp))
                  (group_count
                     (\<lambda>row. (ev_id (fst row), titulo_charla (fst row), sala (fst row)))
                     (filter (\<lambda>row. in_range fecha_inicio fecha_fin (fst row))
                        joined))))))"

subsection \<open>The KPI functions\<close>

definition kpi_inscritos ::
  "db \<Rightarrow> string \<Rightarrow> date \<Rightarrow> date \<Rightarrow> string \<Rightarrow> py_exc + KpiInfo" where
  "kpi_inscritos d granularidad fecha_inicio fecha_fin alias =
     (case inscritos_stmt d fecha_inicio fecha_fin of
        Inl e \<Rightarrow> Inl e
      | Inr result \<Rightarrow>
          (let total_inscritos = or_0 (scalar result)
           in Inr \<lparr>kp_nombre = alias, kp_valor = VInt total_inscritos,
                   kp_detalle = [(''granularidad'', DStr granularidad),
                                 (''periodo'', DPeriodo fecha_inicio fecha_fin)]\<rparr>))"

definition kpi_tasa_asistencia ::
  "db \<Rightarrow> string \<Rightarrow> date \<Rightarrow> date \<Rightarrow> py_exc + KpiInfo" where
  "kpi_tasa_asistencia d granularidad fecha_inicio fecha_fin =
     (case inscritos_stmt d fecha_inicio fecha_fin of
        Inl e \<Rightarrow> Inl e
      | Inr inscritos_result \<Rightarrow>
          (case asistieron_stmt d fecha_inicio fecha_fin of
             Inl e \<Rightarrow> Inl e
           | Inr asistieron_result \<Rightarrow>
               (let total_inscritos = or_0 (scalar inscritos_result);
                    total_asistieron = or_0 (scalar asistieron_result);
                    tasa = (if total_inscritos > 0
                            then VFloat (of_int total_asistieron * 100
                                         / of_int total_inscritos)
                            else VInt 0)
                in Inr \<lparr>kp_nombre = ''tasaAsistencia'', kp_valor = py_round tasa 2,
                        kp_detalle = [(''inscritos'', DVal (VInt total_inscritos)),
                                      (''asistieron'', DVal (VInt total_asistieron)),
                                      (''porcentaje'', DVal (py_round tasa 2))]\<rparr>)))"

definition kpi_no_show ::
  "db \<Rightarrow> string \<Rightarrow> date \<Rightarrow> date \<Rightarrow> py_exc + KpiInfo" where
  "kpi_no_show d granularidad fecha_inicio fecha_fin =
     (case kpi_tasa_asistencia d granularidad fecha_inicio fecha_fin of
        Inl e \<Rightarrow> Inl e
      | Inr tasa_kpi \<Rightarrow>
          (case (map_of (kp_detalle tasa_kpi) ''inscritos'',
                 map_of (kp_detalle tasa_kpi) ''asistieron'') of
             (Some (DVal (VInt total_inscritos)), Some (DVal (VInt total_asistieron))) \<Rightarrow>
               (let no_shows = total_inscritos - total_asistieron
                in Inr \<lparr>kp_nombre = ''noShow'', kp_valor = VInt no_shows,
                        kp_detalle = [(''inscritos'', DVal (VInt total_inscritos)),
                                      (''asistieron'', DVal (VInt total_asistieron)),
                                      (''noShows'', DVal (VInt no_shows))]\<rparr>)
           | _ \<Rightarrow> Inl KeyError))"

definition kpi_leads_por_fuente ::
  "db \<Rightarrow> string \<Rightarrow> date \<Rightarrow> date \<Rightarrow> py_exc + KpiInfo" where
  "kpi_leads_por_fuente d granularidad fecha_inicio fecha_fin =
     (case leads_stmt d fecha_inicio fecha_fin of
        Inl e \<Rightarrow> Inl e
      | Inr fuentes \<Rightarrow>
          (let total_leads = sum_list (map snd fuentes)
           in Inr \<lparr>kp_nombre = ''leadsPorFuente'', kp_valor = VInt total_leads,
                   kp_detalle = [(''totalLeads'', DVal (VInt total_leads)),
                                 (''topFuentes'', DFuentes fuentes)]\<rparr>))"

definition kpi_eventos_populares ::
  "db \<Rightarrow> string \<Rightarrow> date \<Rightarrow> date \<Rightarrow> py_exc + KpiInfo" where
  "kpi_eventos_populares d granularidad fecha_inicio fecha_fin =
     (case eventos_stmt d fecha_inicio fecha_fin of
        Inl e \<Rightarrow> Inl e
      | Inr evs \<Rightarrow>
          Inr \<lparr>kp_nombre = ''eventosMasPopulares'', kp_valor = VInt (int (length evs)),
               kp_detalle = [(''totalEventos'', DVal (VInt (int (length evs)))),
                             (''topEventos'', DEventos evs)]\<rparr>)"

text \<open>
  \<^verbatim>\<open>_calculate_kpi\<close>: the dispatch on the name inside \<^verbatim>\<open>try\<close>; an unknown name and any
  exception give \<^verbatim>\<open>None\<close>.
\<close>

definition calculate_kpi ::
  "db \<Rightarrow> string \<Rightarrow> string \<Rightarrow> date \<Rightarrow> date \<Rightarrow> KpiInfo option" where
  "calculate_kpi d kpi_name granularidad fecha_inicio fecha_fin =
     (case (if kpi_name = ''inscritos''
            then map_sum id Some
                   (kpi_inscritos d granularidad fecha_inicio fecha_fin ''inscritos'')
            else if kpi_name = ''confirmados''
            then map_sum id Some
                   (kpi_inscritos d granularidad fecha_inicio fecha_fin ''confirmados'')
            else if kpi_name = ''tasaAsistencia''
            then map_sum id Some (kpi_tasa_asistencia d granularidad fecha_inicio fecha_fin)
            else if kpi_name = ''noShow''
            then map_sum id Some (kpi_no_show d granularidad fecha_inicio fecha_fin)
            else if kpi_name = ''leadsPorFuente''
            then map_sum id Some (kpi_leads_por_fuente d granularidad fecha_inicio fecha_fin)
            else if kpi_name = ''eventosMasPopulares''
            then map_sum id Some (kpi_eventos_populares d granularidad fecha_inicio fecha_fin)
            else Inr None) of
        Inl e \<Rightarrow> None
      | Inr r \<Rightarrow> r)"

subsection \<open>GetEstadisticasInput (app/schemas/tools\_in.py)\<close>

text \<open>The two entries of the \<^verbatim>\<open>rango\<close> dictionary are the fields \<open>inicio\<close> and \<open>fin\<close>.\<close>

record GetEstadisticasInput =
  es_granularidad :: string
  es_rango_inicio :: string
  es_rango_fin :: string
  es_kpis :: "string list"

definition valid_kpis :: "string list" where
  "valid_kpis = [''inscritos'', ''confirmados'', ''tasaAsistencia'', ''noShow'',
                 ''leadsPorFuente'', ''eventosMasPopulares'']"

text \<open>
  Under pydantic 1 the \<^verbatim>\<open>pattern\<close> on \<^verbatim>\<open>granularidad\<close> is not enforced; \<^verbatim>\<open>min_items\<close> and
  the validator of \<^verbatim>\<open>kpis\<close> are.
\<close>

definition valid_GetEstadisticasInput :: "GetEstadisticasInput \<Rightarrow> bool" where
  "valid_GetEstadisticasInput i =
     (es_kpis i \<noteq> [] \<and> list_all (\<lambda>kpi. kpi \<in> set valid_kpis) (es_kpis i))"

subsection \<open>EstadisticasService.get\_estadisticas\<close>

text \<open>
  \<open>strptime\<close> is \<^verbatim>\<open>datetime.strptime(_, "%Y-%m-%d").date()\<close>, \<open>None\<close> where it raises
  \<^verbatim>\<open>ValueError\<close>. Both dates are parsed before the loop over the requested names; the
  \<^verbatim>\<open>except\<close> clause of this function logs and re-raises.
\<close>

definition S_get_estadisticas ::
  "(string \<Rightarrow> date option) \<Rightarrow> db \<Rightarrow> GetEstadisticasInput
     \<Rightarrow> py_exc + GetEstadisticasOutput" where
  "S_get_estadisticas strptime d input_data =
     (case strptime (es_rango_inicio input_data) of
        None \<Rightarrow> Inl ValueError
      | Some fecha_inicio \<Rightarrow>
          (case strptime (es_rango_fin input_data) of
             None \<Rightarrow> Inl ValueError
           | Some fecha_fin \<Rightarrow>
               Inr \<lparr>eo_kpis =
                      List.map_filter
                        (\<lambda>kpi_name. calculate_kpi d kpi_name (es_granularidad input_data)
                                       fecha_inicio fecha_fin)
                        (es_kpis input_data),
                    eo_granularidad = es_granularidad input_data,
                    eo_periodo = (es_rango_inicio input_data,
                                  es_rango_fin input_data)\<rparr>))"

subsection \<open>The getEstadisticas endpoint (app/api/tools.py)\<close>

definition get_estadisticas ::
  "(string \<Rightarrow> date option) \<Rightarrow> Settings \<Rightarrow> gateway \<Rightarrow> real \<Rightarrow> MCPUser
     \<Rightarrow> GetEstadisticasInput \<Rightarrow> (http_error + GetEstadisticasOutput) \<times> gateway" where
  "get_estadisticas strptime settings g now user input_data =
     (case require_permission ''getEstadisticas'' user of
        Inl e \<Rightarrow> (Inl e, g)
      | Inr u \<Rightarrow>
          if \<not> valid_GetEstadisticasInput input_data then (Inl UnprocessableEntity, g)
          else
          (case check_rate_limit settings (gw_requests g) now u ''getEstadisticas'' of
             (Inl e, rq) \<Rightarrow> (Inl e, g\<lparr>gw_requests := rq\<rparr>)
           | (Inr _, rq) \<Rightarrow>
               (case S_get_estadisticas strptime (gw_db g) input_data of
                  Inl exc \<Rightarrow>
                    (Inl (InternalError ''Error calculating statistics''),
                     g\<lparr>gw_requests := rq\<rparr>)
                | Inr result \<Rightarrow> (Inr result, g\<lparr>gw_requests := rq\<rparr>))))"

text \<open>
  The order that the specification asks of the leads breakdown: larger counts first, equal
  counts by name.
\<close>

definition spec_leads_order :: "(string \<times> int) list \<Rightarrow> bool" where
  "spec_leads_order fuentes =
     sorted_wrt (\<lambda>a b. snd b < snd a \<or> (snd a = snd b \<and> fst a \<le> fst b)) fuentes"

text \<open>
  A store with one event on day 10, \<open>n\<close> registrations for it and \<open>m\<close> attendance rows for
  it.
\<close>

definition kpi_db :: "nat \<Rightarrow> nat \<Rightarrow> db" where
  "kpi_db n m =
     \<lparr>eventos =
        [\<lparr>ev_id = 1, fecha = 10, hora = ''10:00'', sala = ''A'', titulo_charla = ''T1'',
          expositor = ''X'', descripcion = None, slots_disponibles = Some 200,
          disponible = Some True\<rparr>],
      registros = [],
      registro_eventos =
        map (\<lambda>j. \<lparr>re_id = int j + 1, re_registro_id = int j + 1, re_evento_id = 1,
                   fecha_seleccion = None\<rparr>) [0..<n],
      asistencias_por_sala =
        map (\<lambda>j. \<lparr>as_id = int j + 1, as_registro_id = int j + 1, as_evento_id = 1,
                   qr_escaneado = ''qr'', fecha_ingreso = None,
                   asesor_verificador = ''luz'', ip_verificacion = None,
                   notas = None\<rparr>) [0..<m],
      fk_enforced = False, ilike = (\<lambda>_ _. True), fault = (\<lambda>_. None)\<rparr>"

text \<open>
  A reading of \<open>strptime\<close> on the texts used below: two days of August 2025, numbered by
  their day of the month, and no date for any other text (as for \<^verbatim>\<open>2025-02-30\<close>).
\<close>

definition sample_strptime :: "string \<Rightarrow> date option" where
  "sample_strptime s =
     (if s = ''2025-08-01'' then Some 1
      else if s = ''2025-08-31'' then Some 31
      else None)"

text \<open>
  A store with one event on day 10 and two registered people, of the organisations
  \<^verbatim>\<open>Zeta\<close> and \<^verbatim>\<open>Acme\<close> in this order, each registered for the event.
\<close>

definition leads_db :: db where
  "leads_db =
     \<lparr>eventos =
        [\<lparr>ev_id = 1, fecha = 10, hora = ''10:00'', sala = ''A'', titulo_charla = ''T1'',
          expositor = ''X'', descripcion = None, slots_disponibles = Some 200,
          disponible = Some True\<rparr>],
      registros =
        [\<lparr>reg_id = 1, nombres = ''Zoe'', correo = ''zoe@zeta.pe'', empresa = Some ''Zeta'',
          qr_code = None\<rparr>,
         \<lparr>reg_id = 2, nombres = ''Ana'', correo = ''ana@acme.pe'', empresa = Some ''Acme'',
          qr_code = None\<rparr>],
      registro_eventos =
        [\<lparr>re_id = 1, re_registro_id = 1, re_evento_id = 1, fecha_seleccion = Some 100\<rparr>,
         \<lparr>re_id = 2, re_registro_id = 2, re_evento_id = 1, fecha_seleccion = Some 200\<rparr>],
      asistencias_por_sala = [], fk_enforced = True,
      ilike = (\<lambda>_ _. True), fault = (\<lambda>_. None)\<rparr>"

section \<open>Cache (app/cache/redis\_client.py)\<close>








text \<open>
  \<^verbatim>\<open>get_cache_key\<close>: the keyword arguments are a list of names with the text of their
  values, \<open>None\<close> for a \<^verbatim>\<open>None\<close>; those are dropped, the rest sorted by name and joined.
\<close>

fun join_with :: "string \<Rightarrow> string list \<Rightarrow> string" where
  "join_with sep [] = []"
| "join_with sep [x] = x"
| "join_with sep (x # y # ys) = x @ sep @ join_with sep (y # ys)"

definition get_cache_key :: "string \<Rightarrow> (string \<times> string option) list \<Rightarrow> string" where
  "get_cache_key tool_name params =
     (let filtered_params = filter (\<lambda>kv. snd kv \<noteq> None) params;
          sorted_params = sort_key fst filtered_params;
          params_str = join_with ''&''
                         (map (\<lambda>kv. fst kv @ ''='' @ the (snd kv)) sorted_params)
      in ''mcp:'' @ tool_name @ '':'' @ params_str)"




section \<open>Events (getEventos)\<close>

subsection \<open>EventosQueries.get\_eventos\_filtered (app/db/queries.py)\<close>


subsection \<open>GetEventosInput, EventoInfo, GetEventosOutput (app/schemas)\<close>





subsection \<open>EventosService.get\_eventos (app/services/eventos.py)\<close>



subsection \<open>The getEventos endpoint (app/api/tools.py)\<close>




section \<open>Permission resolution\<close>






section \<open>Sliding-window admission\<close>

lemma check_rate_limit_step:
  "check_rate_limit settings requests now user tool_name =
     (let key = rate_key user tool_name;
          kept = filter (\<lambda>t. now - t < 60) (requests key)
      in if tool_limit settings tool_name \<le> int (length kept)
         then (Inl TooManyRequests, requests(key := kept))
         else (Inr (), requests(key := kept @ [now])))"
  by (simp add: check_rate_limit_def is_allowed_def Let_def)

lemma check_rate_limit_seq_append:
  "check_rate_limit_seq settings requests user tool_name (xs @ ys) =
     (case check_rate_limit_seq settings requests user tool_name xs of
        (rs, requests') \<Rightarrow>
          (case check_rate_limit_seq settings requests' user tool_name ys of
             (rs', requests'') \<Rightarrow> (rs @ rs', requests'')))"
  by (induction xs arbitrary: requests) (auto split: prod.splits)

lemma admitted_within_window:
  assumes "requests (rate_key user tool_name) = acc"
    and "\<forall>s\<in>set ts. \<forall>t\<in>set acc \<union> set ts. s - t < 60"
    and "int (length acc + length ts) \<le> tool_limit settings tool_name"
  shows "check_rate_limit_seq settings requests user tool_name ts =
           (replicate (length ts) (Inr ()),
            requests(rate_key user tool_name := acc @ ts))"
  using assms
proof (induction ts arbitrary: requests acc)
  case Nil
  then show ?case by auto
next
  case (Cons now nows)
  let ?key = "rate_key user tool_name"
  have "\<forall>t\<in>set acc. now - t < 60"
    using Cons.prems(2) by auto
  then have kept: "filter (\<lambda>t. now - t < 60) (requests ?key) = acc"
    using Cons.prems(1) by simp
  have lt: "\<not> tool_limit settings tool_name \<le> int (length acc)"
    using Cons.prems(3) by simp
  have step: "check_rate_limit settings requests now user tool_name =
                (Inr (), requests(?key := acc @ [now]))"
    using kept lt by (simp add: check_rate_limit_step Let_def)
  have ih: "check_rate_limit_seq settings (requests(?key := acc @ [now])) user tool_name nows =
              (replicate (length nows) (Inr ()),
               (requests(?key := acc @ [now]))(?key := (acc @ [now]) @ nows))"
    using Cons.prems(2,3) by (intro Cons.IH) auto
  show ?case using step ih by (auto simp: fun_eq_iff)
qed

text \<open>
  C4. Each admission check of \<^verbatim>\<open>check_rate_limit\<close> keeps, for the key of the principal and
  the tool, the timestamps \<open>t\<close> with \<open>now - t < 60\<close>; it answers 429 and records nothing
  when at least \<open>limit\<close> of them remain, and otherwise appends \<open>now\<close> and allows. Hence,
  for a fresh key and a limit \<open>L > 0\<close>: \<open>L\<close> calls inside one window are all admitted, one
  more call inside that window is rejected, and a call made once the window has elapsed is
  admitted again.
\<close>

theorem sliding_window_admission:
  assumes fresh: "requests (rate_key user tool_name) = []"
    and limit: "0 < tool_limit settings tool_name"
    and count: "int (length ts) = tool_limit settings tool_name"
    and window: "\<forall>s\<in>set (ts @ [u]). \<forall>t\<in>set ts. s - t < 60"
    and elapsed: "\<forall>t\<in>set ts. 60 \<le> v - t"
  shows "(\<forall>rq now.
            check_rate_limit settings rq now user tool_name =
              (let key = rate_key user tool_name;
                   kept = filter (\<lambda>t. now - t < 60) (rq key)
               in if tool_limit settings tool_name \<le> int (length kept)
                  then (Inl TooManyRequests, rq(key := kept))
                  else (Inr (), rq(key := kept @ [now]))))
       \<and> check_rate_limit_seq settings requests user tool_name (ts @ [u, v]) =
           (replicate (length ts) (Inr ()) @ [Inl TooManyRequests, Inr ()],
            requests(rate_key user tool_name := [v]))"
proof (intro conjI allI)
  fix rq now
  show "check_rate_limit settings rq now user tool_name =
              (let key = rate_key user tool_name;
                   kept = filter (\<lambda>t. now - t < 60) (rq key)
               in if tool_limit settings tool_name \<le> int (length kept)
                  then (Inl TooManyRequests, rq(key := kept))
                  else (Inr (), rq(key := kept @ [now])))"
    by (rule check_rate_limit_step)
next
  let ?key = "rate_key user tool_name"
  let ?r1 = "requests(?key := ts)"
  have first: "check_rate_limit_seq settings requests user tool_name ts =
                 (replicate (length ts) (Inr ()), ?r1)"
    using admitted_within_window
            [where requests = requests and acc = "[]" and ts = ts and user = user
               and tool_name = tool_name and settings = settings]
          fresh window count
    by auto
  have "\<forall>t\<in>set ts. u - t < 60"
    using window by auto
  then have keptu: "filter (\<lambda>t. u - t < 60) (?r1 ?key) = ts"
    by simp
  have rej: "check_rate_limit settings ?r1 u user tool_name = (Inl TooManyRequests, ?r1)"
    using keptu count by (simp add: check_rate_limit_step Let_def)
  have "\<forall>t\<in>set ts. \<not> v - t < 60"
    using elapsed by auto
  then have keptv: "filter (\<lambda>t. v - t < 60) (?r1 ?key) = []"
    by simp
  have res: "check_rate_limit settings ?r1 v user tool_name =
               (Inr (), requests(?key := [v]))"
    using keptv limit by (simp add: check_rate_limit_step Let_def)
  show "check_rate_limit_seq settings requests user tool_name (ts @ [u, v]) =
           (replicate (length ts) (Inr ()) @ [Inl TooManyRequests, Inr ()],
            requests(?key := [v]))"
    using first rej res by (simp add: check_rate_limit_seq_append)
qed

theorem sliding_window_admission_witness:
  "check_rate_limit_seq default_settings (\<lambda>_. [])
      \<lparr>user_id = ''u1'', username = ''ana'', role = LECTOR,
        permissions = ROLE_PERMISSIONS LECTOR\<rparr> ''getEventos''
      ([0, 1, 2, 3, 4, 5, 6, 7, 8, 9] @ [30, 69]) =
     ([Inr (), Inr (), Inr (), Inr (), Inr (), Inr (), Inr (), Inr (), Inr (), Inr (),
       Inl TooManyRequests, Inr ()],
      (\<lambda>_. [])(''u1:getEventos'' := [69]))"
  using sliding_window_admission
    [of "\<lambda>_. []" "\<lparr>user_id = ''u1'', username = ''ana'', role = LECTOR,
        permissions = ROLE_PERMISSIONS LECTOR\<rparr>" "''getEventos''" default_settings
        "[0, 1, 2, 3, 4, 5, 6, 7, 8, 9]" 30 69]
  by (simp add: default_settings_def tool_limit_def rate_key_def)

section \<open>Attendance confirmation, call after call\<close>

lemma str_nat_digit: "n < 10 \<Longrightarrow> str_nat n = [''0123456789'' ! n]"
  by (subst str_nat.simps) simp

lemma str_nat_more:
  "\<not> n < 10 \<Longrightarrow> str_nat n = str_nat (n div 10) @ [''0123456789'' ! (n mod 10)]"
  by (subst str_nat.simps) simp

lemma foldr_max_ge: "x \<in> set xs \<Longrightarrow> x \<le> foldr max xs (0::int)"
  by (induction xs) auto

lemma next_as_id_fresh: "a \<in> set rows \<Longrightarrow> as_id a < next_as_id rows"
  using foldr_max_ge [of "as_id a" "map as_id rows"] by (simp add: next_as_id_def)

lemma map_upd_absent:
  "as_id x \<notin> as_id ` set rows \<Longrightarrow>
     map (\<lambda>a. if as_id a = as_id x then y else a) rows = rows"
  by (induction rows) auto

lemma filter_singleton_mem: "filter P rows = [x] \<Longrightarrow> x \<in> set rows \<and> P x"
proof -
  assume h: "filter P rows = [x]"
  have "x \<in> set (filter P rows)" by (simp add: h)
  then show ?thesis by simp
qed

lemma update_by_pk_pair:
  assumes "distinct (map as_id rows)" and "filter P rows = [x]"
    and "P y" and "as_id y = as_id x"
  shows "filter P (map (\<lambda>a. if as_id a = as_id x then y else a) rows) = [y]"
  using assms
proof (induction rows)
  case Nil
  then show ?case by simp
next
  case (Cons a rest)
  show ?case
  proof (cases "P a")
    case True
    with Cons.prems(2) have ax: "a = x" and empty: "filter P rest = []" by auto
    from Cons.prems(1) ax have "as_id x \<notin> as_id ` set rest" by auto
    then have "map (\<lambda>a. if as_id a = as_id x then y else a) rest = rest"
      by (rule map_upd_absent)
    with ax empty Cons.prems(3) show ?thesis by simp
  next
    case False
    with Cons.prems(2) have rest: "filter P rest = [x]" by simp
    then have "x \<in> set rest" using filter_singleton_mem by fastforce
    with Cons.prems(1) have ne: "as_id a \<noteq> as_id x" by force
    from Cons.prems(1) have d: "distinct (map as_id rest)" by simp
    from Cons.IH [OF d rest Cons.prems(3,4)] ne False show ?thesis by simp
  qed
qed

lemma update_by_pk_others:
  assumes "distinct (map as_id rows)" and "filter P rows = [x]"
    and "P y"
  shows "filter (\<lambda>a. \<not> P a) (map (\<lambda>a. if as_id a = as_id x then y else a) rows)
           = filter (\<lambda>a. \<not> P a) rows"
  using assms
proof (induction rows)
  case Nil
  then show ?case by simp
next
  case (Cons a rest)
  show ?case
  proof (cases "P a")
    case True
    with Cons.prems(2) have ax: "a = x" and empty: "filter P rest = []" by auto
    from Cons.prems(1) ax have "as_id x \<notin> as_id ` set rest" by auto
    then have "map (\<lambda>a. if as_id a = as_id x then y else a) rest = rest"
      by (rule map_upd_absent)
    with ax True Cons.prems(3) show ?thesis by simp
  next
    case False
    with Cons.prems(2) have rest: "filter P rest = [x]" by simp
    then have "x \<in> set rest" using filter_singleton_mem by fastforce
    with Cons.prems(1) have ne: "as_id a \<noteq> as_id x" by force
    from Cons.prems(1) have d: "distinct (map as_id rest)" by simp
    from Cons.IH [OF d rest Cons.prems(3)] ne False show ?thesis by simp
  qed
qed

lemma update_by_pk_ids:
  "as_id y = as_id x \<Longrightarrow>
     map as_id (map (\<lambda>a. if as_id a = as_id x then y else a) rows) = map as_id rows"
  by (induction rows) auto

lemma scalar_one_or_none_short:
  "length xs \<le> 1 \<Longrightarrow> scalar_one_or_none xs = Inr (case xs of [] \<Rightarrow> None | x # _ \<Rightarrow> Some x)"
  by (cases xs rule: scalar_one_or_none.cases) auto

lemma confirm_step_update:
  assumes pk: "pk_asistencias d" and one: "pair_rows d r e = [x]"
  shows "\<exists>a. pair_rows (confirm_step r e d c) r e = [a] \<and> as_id a = as_id x
              \<and> asesor_verificador a = c_asesor c"
    and "pk_asistencias (confirm_step r e d c)"
    and "filter (\<lambda>a. \<not> same_pair r e a) (asistencias_por_sala (confirm_step r e d c))
           = filter (\<lambda>a. \<not> same_pair r e a) (asistencias_por_sala d)"
    and "fk_enforced (confirm_step r e d c) = fk_enforced d"
    and "registros (confirm_step r e d c) = registros d"
    and "eventos (confirm_step r e d c) = eventos d"
proof -
  define e1 where "e1 = x\<lparr>asesor_verificador := c_asesor c, fecha_ingreso := Some (c_now c)\<rparr>"
  define e2 where "e2 = (if truthy (c_observacion c) then e1\<lparr>notas := c_observacion c\<rparr> else e1)"
  define e3 where "e3 = (if truthy (c_ip c) then e2\<lparr>ip_verificacion := c_ip c\<rparr> else e2)"
  let ?rows = "asistencias_por_sala d"
  let ?rows' = "map (\<lambda>a. if as_id a = as_id x then e3 else a) ?rows"
  from one have flt: "filter (same_pair r e) ?rows = [x]"
    by (simp add: pair_rows_def)
  have step: "confirm_step r e d c = d\<lparr>asistencias_por_sala := ?rows'\<rparr>"
    using flt by (simp add: confirm_step_def Q_confirmar_asistencia_def Let_def
        e1_def e2_def e3_def)
  from flt have px: "same_pair r e x" using filter_singleton_mem by fastforce
  have id3: "as_id e3 = as_id x" by (simp add: e3_def e2_def e1_def)
  have p3: "same_pair r e e3" using px by (simp add: same_pair_def e3_def e2_def e1_def)
  have v3: "asesor_verificador e3 = c_asesor c" by (simp add: e3_def e2_def e1_def)
  from pk have dist: "distinct (map as_id ?rows)" by (simp add: pk_asistencias_def)
  have "filter (same_pair r e) ?rows' = [e3]"
    using update_by_pk_pair [OF dist flt p3 id3] .
  then show "\<exists>a. pair_rows (confirm_step r e d c) r e = [a] \<and> as_id a = as_id x
              \<and> asesor_verificador a = c_asesor c"
    using id3 v3 by (simp add: step pair_rows_def)
  have ids: "map as_id ?rows' = map as_id ?rows"
    by (rule update_by_pk_ids [OF id3])
  have rows': "asistencias_por_sala (confirm_step r e d c) = ?rows'"
    by (simp add: step)
  show "pk_asistencias (confirm_step r e d c)"
    using dist by (simp only: pk_asistencias_def rows' ids)
  show "filter (\<lambda>a. \<not> same_pair r e a) (asistencias_por_sala (confirm_step r e d c))
           = filter (\<lambda>a. \<not> same_pair r e a) (asistencias_por_sala d)"
    using update_by_pk_others [OF dist flt p3] by (simp add: step)
  show "fk_enforced (confirm_step r e d c) = fk_enforced d" by (simp add: step)
  show "registros (confirm_step r e d c) = registros d" by (simp add: step)
  show "eventos (confirm_step r e d c) = eventos d" by (simp add: step)
qed

lemma confirm_step_blocked:
  assumes none: "pair_rows d r e = []"
    and blocked: "fk_enforced d \<and> \<not> references_exist d r e"
  shows "confirm_step r e d c = d"
  using none blocked
  by (simp add: confirm_step_def Q_confirmar_asistencia_def Let_def pair_rows_def)

lemma confirm_step_create:
  assumes none: "pair_rows d r e = []"
    and free: "\<not> (fk_enforced d \<and> \<not> references_exist d r e)"
  shows "\<exists>a. pair_rows (confirm_step r e d c) r e = [a]
              \<and> as_id a = next_as_id (asistencias_por_sala d)
              \<and> asesor_verificador a = c_asesor c"
    and "pk_asistencias d \<Longrightarrow> pk_asistencias (confirm_step r e d c)"
    and "filter (\<lambda>a. \<not> same_pair r e a) (asistencias_por_sala (confirm_step r e d c))
           = filter (\<lambda>a. \<not> same_pair r e a) (asistencias_por_sala d)"
    and "fk_enforced (confirm_step r e d c) = fk_enforced d"
    and "registros (confirm_step r e d c) = registros d"
    and "eventos (confirm_step r e d c) = eventos d"
proof -
  let ?rows = "asistencias_por_sala d"
  obtain new where step: "confirm_step r e d c = d\<lparr>asistencias_por_sala := ?rows @ [new]\<rparr>"
    and idn: "as_id new = next_as_id ?rows"
    and pn: "same_pair r e new"
    and vn: "asesor_verificador new = c_asesor c"
    using none free
    by (auto simp: confirm_step_def Q_confirmar_asistencia_def Let_def pair_rows_def
        same_pair_def)
  from none have flt: "filter (same_pair r e) ?rows = []" by (simp add: pair_rows_def)
  show "\<exists>a. pair_rows (confirm_step r e d c) r e = [a]
              \<and> as_id a = next_as_id (asistencias_por_sala d)
              \<and> asesor_verificador a = c_asesor c"
    using flt idn pn vn by (simp add: step pair_rows_def)
  show "pk_asistencias d \<Longrightarrow> pk_asistencias (confirm_step r e d c)"
    using idn next_as_id_fresh [of _ ?rows]
    by (fastforce simp: step pk_asistencias_def)
  show "filter (\<lambda>a. \<not> same_pair r e a) (asistencias_por_sala (confirm_step r e d c))
           = filter (\<lambda>a. \<not> same_pair r e a) (asistencias_por_sala d)"
    using pn by (simp add: step)
  show "fk_enforced (confirm_step r e d c) = fk_enforced d" by (simp add: step)
  show "registros (confirm_step r e d c) = registros d" by (simp add: step)
  show "eventos (confirm_step r e d c) = eventos d" by (simp add: step)
qed

lemma short_list_cases: "length xs \<le> 1 \<Longrightarrow> xs = [] \<or> (\<exists>x. xs = [x])"
  by (cases xs) auto

lemma confirm_calls_snoc:
  "confirm_calls r e d (cs @ [c]) = confirm_step r e (confirm_calls r e d cs) c"
  by (simp add: confirm_calls_def)

lemma confirm_step_verifier:
  assumes pk: "pk_asistencias d" and le: "length (pair_rows d r e) \<le> 1"
  shows "\<forall>a\<in>set (pair_rows (confirm_step r e d c) r e).
           asesor_verificador a = c_asesor c"
proof -
  from short_list_cases [OF le] consider
      (blocked) "pair_rows d r e = []" "fk_enforced d \<and> \<not> references_exist d r e"
    | (free) "pair_rows d r e = []" "\<not> (fk_enforced d \<and> \<not> references_exist d r e)"
    | (present) x where "pair_rows d r e = [x]"
    by blast
  then show ?thesis
  proof cases
    case blocked
    then show ?thesis using confirm_step_blocked [of d r e c] by simp
  next
    case free
    from confirm_step_create(1) [OF free, of c] show ?thesis by auto
  next
    case present
    from confirm_step_update(1) [OF pk present, of c] show ?thesis by auto
  qed
qed

lemma confirm_calls_inv:
  assumes pk: "pk_asistencias d" and le: "length (pair_rows d r e) \<le> 1"
  shows "pk_asistencias (confirm_calls r e d cs)
       \<and> length (pair_rows (confirm_calls r e d cs) r e) \<le> 1
       \<and> fk_enforced (confirm_calls r e d cs) = fk_enforced d
       \<and> registros (confirm_calls r e d cs) = registros d
       \<and> eventos (confirm_calls r e d cs) = eventos d
       \<and> filter (\<lambda>a. \<not> same_pair r e a) (asistencias_por_sala (confirm_calls r e d cs))
           = filter (\<lambda>a. \<not> same_pair r e a) (asistencias_por_sala d)
       \<and> (\<forall>x. pair_rows d r e = [x] \<longrightarrow>
             (\<exists>a. pair_rows (confirm_calls r e d cs) r e = [a] \<and> as_id a = as_id x))
       \<and> (pair_rows d r e = [] \<and> fk_enforced d \<and> \<not> references_exist d r e \<longrightarrow>
             confirm_calls r e d cs = d)
       \<and> (pair_rows d r e = [] \<and> \<not> (fk_enforced d \<and> \<not> references_exist d r e)
            \<and> cs \<noteq> [] \<longrightarrow>
             (\<exists>a. pair_rows (confirm_calls r e d cs) r e = [a]
                  \<and> as_id a = next_as_id (asistencias_por_sala d)))"
proof (induction cs rule: rev_induct)
  case Nil
  show ?case using pk le by (simp add: confirm_calls_def)
next
  case (snoc c cs)
  let ?d1 = "confirm_calls r e d cs"
  let ?d2 = "confirm_step r e ?d1 c"
  note ih = snoc.IH
  from ih have pk1: "pk_asistencias ?d1" and le1: "length (pair_rows ?d1 r e) \<le> 1"
    and fk1: "fk_enforced ?d1 = fk_enforced d"
    and rg1: "registros ?d1 = registros d" and ev1: "eventos ?d1 = eventos d"
    and ot1: "filter (\<lambda>a. \<not> same_pair r e a) (asistencias_por_sala ?d1)
                = filter (\<lambda>a. \<not> same_pair r e a) (asistencias_por_sala d)"
    and pr1: "\<forall>x. pair_rows d r e = [x] \<longrightarrow>
                (\<exists>a. pair_rows ?d1 r e = [a] \<and> as_id a = as_id x)"
    and bl1: "pair_rows d r e = [] \<and> fk_enforced d \<and> \<not> references_exist d r e \<longrightarrow>
                ?d1 = d"
    and cr1: "pair_rows d r e = [] \<and> \<not> (fk_enforced d \<and> \<not> references_exist d r e)
                \<and> cs \<noteq> [] \<longrightarrow>
                (\<exists>a. pair_rows ?d1 r e = [a]
                     \<and> as_id a = next_as_id (asistencias_por_sala d))"
    by blast+
  have ref1: "references_exist ?d1 r e = references_exist d r e"
    by (simp add: references_exist_def rg1 ev1)
  have empty_run: "cs = [] \<Longrightarrow> ?d1 = d" by (simp add: confirm_calls_def)
  from short_list_cases [OF le1] consider
      (blocked) "pair_rows ?d1 r e = []" "fk_enforced ?d1 \<and> \<not> references_exist ?d1 r e"
    | (free) "pair_rows ?d1 r e = []" "\<not> (fk_enforced ?d1 \<and> \<not> references_exist ?d1 r e)"
    | (present) y where "pair_rows ?d1 r e = [y]"
    by blast
  then have "pk_asistencias ?d2
       \<and> length (pair_rows ?d2 r e) \<le> 1
       \<and> fk_enforced ?d2 = fk_enforced d
       \<and> registros ?d2 = registros d
       \<and> eventos ?d2 = eventos d
       \<and> filter (\<lambda>a. \<not> same_pair r e a) (asistencias_por_sala ?d2)
           = filter (\<lambda>a. \<not> same_pair r e a) (asistencias_por_sala d)
       \<and> (\<forall>x. pair_rows d r e = [x] \<longrightarrow>
             (\<exists>a. pair_rows ?d2 r e = [a] \<and> as_id a = as_id x))
       \<and> (pair_rows d r e = [] \<and> fk_enforced d \<and> \<not> references_exist d r e \<longrightarrow>
             ?d2 = d)
       \<and> (pair_rows d r e = [] \<and> \<not> (fk_enforced d \<and> \<not> references_exist d r e)
            \<and> cs @ [c] \<noteq> [] \<longrightarrow>
             (\<exists>a. pair_rows ?d2 r e = [a]
                  \<and> as_id a = next_as_id (asistencias_por_sala d)))"
  proof cases
    case blocked
    have same: "?d2 = ?d1" using confirm_step_blocked [OF blocked] .
    have nb: "fk_enforced d \<and> \<not> references_exist d r e"
      using blocked(2) fk1 ref1 by simp
    have "\<forall>x. pair_rows d r e \<noteq> [x]" using pr1 blocked(1) by auto
    then show ?thesis
      unfolding same using pk1 le1 fk1 rg1 ev1 ot1 bl1 nb by simp
  next
    case free
    note cr = confirm_step_create [OF free, of c]
    have nf: "\<not> (fk_enforced d \<and> \<not> references_exist d r e)"
      using free(2) fk1 ref1 by simp
    have nox: "\<forall>x. pair_rows d r e \<noteq> [x]" using pr1 free(1) by auto
    have start: "pair_rows d r e = [] \<Longrightarrow> ?d1 = d"
      using cr1 nf free(1) empty_run by (cases "cs = []") auto
    from cr(1) obtain a where a: "pair_rows ?d2 r e = [a]"
      "as_id a = next_as_id (asistencias_por_sala ?d1)" by blast
    have c9: "pair_rows d r e = [] \<longrightarrow>
                (\<exists>a. pair_rows ?d2 r e = [a]
                     \<and> as_id a = next_as_id (asistencias_por_sala d))"
      using a start by auto
    show ?thesis
      using cr(2) [OF pk1] a(1) cr(3) cr(4) cr(5) cr(6) fk1 rg1 ev1 ot1 nox nf c9
      by auto
  next
    case present
    note up = confirm_step_update [OF pk1 present, of c]
    from up(1) obtain a where a: "pair_rows ?d2 r e = [a]" "as_id a = as_id y" by blast
    have c7: "\<forall>x. pair_rows d r e = [x] \<longrightarrow>
                (\<exists>a. pair_rows ?d2 r e = [a] \<and> as_id a = as_id x)"
      using pr1 present a by auto
    have c8: "pair_rows d r e = [] \<and> fk_enforced d \<and> \<not> references_exist d r e \<longrightarrow>
                ?d2 = d"
      using bl1 present by auto
    have c9: "pair_rows d r e = [] \<and> \<not> (fk_enforced d \<and> \<not> references_exist d r e)
                \<longrightarrow> (\<exists>a. pair_rows ?d2 r e = [a]
                     \<and> as_id a = next_as_id (asistencias_por_sala d))"
    proof (intro impI)
      assume h: "pair_rows d r e = [] \<and> \<not> (fk_enforced d \<and> \<not> references_exist d r e)"
      have "cs \<noteq> []" using h present empty_run by auto
      with cr1 h obtain b where "pair_rows ?d1 r e = [b]"
        "as_id b = next_as_id (asistencias_por_sala d)" by blast
      with present a show "\<exists>a. pair_rows ?d2 r e = [a]
                     \<and> as_id a = next_as_id (asistencias_por_sala d)" by auto
    qed
    show ?thesis
      using up(2) a(1) up(3) up(4) up(5) up(6) fk1 rg1 ev1 ot1 c7 c8 c9 by auto
  qed
  then show ?case unfolding confirm_calls_snoc .
qed

lemma empty_db_pk: "pk_asistencias empty_db"
  by (simp add: pk_asistencias_def empty_db_def)

lemma empty_db_pair_rows: "pair_rows empty_db r e = []"
  by (simp add: pair_rows_def empty_db_def)

text \<open>
  Calls that run one after another, each from its \<^verbatim>\<open>SELECT\<close> to its commit, on a store
  with at most one attendance row for the pair: at most one row remains, a row that was
  there keeps its primary key, a row created by the first call is the one every later call
  updates, the verifier stored is the last call's, and rows of other pairs are untouched.
\<close>

lemma sequential_confirmations_converge:
  assumes pk: "pk_asistencias d" and le: "length (pair_rows d r e) \<le> 1"
    and ne: "cs \<noteq> []"
  shows "length (pair_rows (confirm_calls r e d cs) r e) \<le> 1
       \<and> (\<forall>a\<in>set (pair_rows (confirm_calls r e d cs) r e).
             asesor_verificador a = c_asesor (last cs)
             \<and> as_registro_id a = r \<and> as_evento_id a = e)
       \<and> (\<forall>x\<in>set (pair_rows d r e).
             \<exists>a. pair_rows (confirm_calls r e d cs) r e = [a] \<and> as_id a = as_id x)
       \<and> (pair_rows d r e = [] \<longrightarrow>
             (\<forall>a\<in>set (pair_rows (confirm_calls r e d cs) r e).
                as_id a = next_as_id (asistencias_por_sala d)))
       \<and> (\<not> fk_enforced d \<or> references_exist d r e \<or> pair_rows d r e \<noteq> [] \<longrightarrow>
             length (pair_rows (confirm_calls r e d cs) r e) = 1)
       \<and> filter (\<lambda>a. \<not> same_pair r e a) (asistencias_por_sala (confirm_calls r e d cs))
           = filter (\<lambda>a. \<not> same_pair r e a) (asistencias_por_sala d)
       \<and> pk_asistencias (confirm_calls r e d cs)"
proof -
  let ?f = "confirm_calls r e d cs"
  note inv = confirm_calls_inv [OF pk le, of cs]
  from inv have c1: "length (pair_rows ?f r e) \<le> 1" by blast
  from inv have c7: "pk_asistencias ?f" by blast
  from inv have c6: "filter (\<lambda>a. \<not> same_pair r e a) (asistencias_por_sala ?f)
           = filter (\<lambda>a. \<not> same_pair r e a) (asistencias_por_sala d)" by blast
  from inv have pr: "\<forall>x. pair_rows d r e = [x] \<longrightarrow>
             (\<exists>a. pair_rows ?f r e = [a] \<and> as_id a = as_id x)" by blast
  from inv have bl: "pair_rows d r e = [] \<and> fk_enforced d \<and> \<not> references_exist d r e
             \<longrightarrow> ?f = d" by blast
  from inv ne have cr: "pair_rows d r e = []
             \<and> \<not> (fk_enforced d \<and> \<not> references_exist d r e) \<longrightarrow>
             (\<exists>a. pair_rows ?f r e = [a]
                  \<and> as_id a = next_as_id (asistencias_por_sala d))" by blast
  from short_list_cases [OF le] have shape: "pair_rows d r e = [] \<or> (\<exists>x. pair_rows d r e = [x])" .
  have c3: "\<forall>x\<in>set (pair_rows d r e).
             \<exists>a. pair_rows ?f r e = [a] \<and> as_id a = as_id x"
    using shape pr by auto
  have c4: "pair_rows d r e = [] \<longrightarrow>
             (\<forall>a\<in>set (pair_rows ?f r e). as_id a = next_as_id (asistencias_por_sala d))"
    using bl cr by (cases "fk_enforced d \<and> \<not> references_exist d r e") auto
  have c5: "\<not> fk_enforced d \<or> references_exist d r e \<or> pair_rows d r e \<noteq> [] \<longrightarrow>
             length (pair_rows ?f r e) = 1"
    using shape pr cr by auto
  from ne obtain cs' c where split: "cs = cs' @ [c]"
    by (metis rev_exhaust)
  note inv' = confirm_calls_inv [OF pk le, of cs']
  from inv' have pk': "pk_asistencias (confirm_calls r e d cs')"
    and le': "length (pair_rows (confirm_calls r e d cs') r e) \<le> 1" by blast+
  have ver: "\<forall>a\<in>set (pair_rows ?f r e). asesor_verificador a = c_asesor (last cs)"
    using confirm_step_verifier [OF pk' le', of c]
    by (simp add: split confirm_calls_snoc)
  have keyp: "\<forall>a\<in>set (pair_rows ?f r e). as_registro_id a = r \<and> as_evento_id a = e"
    by (simp add: pair_rows_def same_pair_def)
  show ?thesis using c1 ver keyp c3 c4 c5 c6 c7 by blast
qed

subsection \<open>A call as two steps on the shared store\<close>

lemma scalar_one_or_none_Some:
  "scalar_one_or_none xs = Inr (Some x) \<Longrightarrow> xs = [x]"
  by (cases xs rule: scalar_one_or_none.cases) auto

lemma update_loaded_row:
  assumes "distinct (map as_id rows)" and "x \<in> set rows"
  shows "map (\<lambda>a. if as_id a = as_id x then f a else a) rows
         = map (\<lambda>a. if as_id a = as_id x then f x else a) rows"
proof (rule map_cong [OF refl])
  fix a assume a: "a \<in> set rows"
  from assms(1) have "inj_on as_id (set rows)" by (simp add: distinct_map)
  with a assms(2) have "as_id a = as_id x \<Longrightarrow> a = x" by (auto dest: inj_onD)
  then show "(if as_id a = as_id x then f a else a) = (if as_id a = as_id x then f x else a)"
    by auto
qed

lemma select_then_commit:
  assumes pk: "pk_asistencias d"
  shows "Q_confirmar_asistencia d db_now r e est asesor obs ip
         = (case Q_select d r e of
              Inl exc \<Rightarrow> Inl exc
            | Inr loaded \<Rightarrow> Q_commit d db_now r e asesor obs ip loaded)"
proof (cases "Q_select d r e")
  case (Inl exc)
  then show ?thesis by (simp add: Q_confirmar_asistencia_def Q_select_def)
next
  case (Inr loaded)
  show ?thesis
  proof (cases loaded)
    case None
    with Inr show ?thesis
      by (simp add: Q_confirmar_asistencia_def Q_select_def Q_commit_def)
  next
    case (Some x)
    with Inr have flt: "filter (same_pair r e) (asistencias_por_sala d) = [x]"
      by (simp add: Q_select_def scalar_one_or_none_Some)
    then have mem: "x \<in> set (asistencias_por_sala d)"
      using filter_singleton_mem by fastforce
    from pk have dist: "distinct (map as_id (asistencias_por_sala d))"
      by (simp add: pk_asistencias_def)
    define F where "F = (\<lambda>a::ExpoAsistenciasPorSala. let e1 = a\<lparr>asesor_verificador := asesor,
                                          fecha_ingreso := Some db_now\<rparr>;
                                 e2 = (if truthy obs then e1\<lparr>notas := obs\<rparr> else e1)
                             in if truthy ip then e2\<lparr>ip_verificacion := ip\<rparr> else e2)"
    have c: "Q_commit d db_now r e asesor obs ip (Some x)
             = Inr (True, d\<lparr>asistencias_por_sala :=
                              map (\<lambda>a. if as_id a = as_id x then F a else a)
                                  (asistencias_por_sala d)\<rparr>)"
      by (simp add: Q_commit_def F_def)
    have q: "Q_confirmar_asistencia d db_now r e est asesor obs ip
             = Inr (True, d\<lparr>asistencias_por_sala :=
                              map (\<lambda>a. if as_id a = as_id x then F x else a)
                                  (asistencias_por_sala d)\<rparr>)"
      by (simp add: Q_confirmar_asistencia_def flt F_def Let_def)
    from Inr Some c q update_loaded_row [OF dist mem, of F] show ?thesis
      by (simp only: sum.case)
  qed
qed

lemma single_call_schedule:
  assumes pk: "pk_asistencias d"
  shows "run_schedule r e [c] d [Select 0, Commit 0] = confirm_step r e d c"
proof (cases "Q_select d r e")
  case (Inl exc)
  then show ?thesis
    by (simp add: run_schedule_def sched_step_def confirm_step_def
                  select_then_commit [OF pk])
next
  case (Inr loaded)
  then show ?thesis
    by (simp add: run_schedule_def sched_step_def confirm_step_def
                  select_then_commit [OF pk] split: sum.splits prod.splits)
qed

text \<open>
  C1. Confirmation is not idempotent when calls overlap. Two first confirmations of the
  pair (1037, 123) on an empty store, by \<^verbatim>\<open>ana\<close> and by \<^verbatim>\<open>luz\<close>, whose \<^verbatim>\<open>SELECT\<close>s both run
  before either commit, leave two attendance rows for the pair. From then on every
  confirmation of the pair raises \<^verbatim>\<open>MultipleResultsFound\<close> and the endpoint answers with an
  internal error. The same two calls run one after the other leave one row, verified by
  \<^verbatim>\<open>luz\<close>.
\<close>

theorem overlapping_confirmations_leave_two_rows:
  "map (\<lambda>a. (as_id a, asesor_verificador a))
     (pair_rows
        (run_schedule 1037 123
           [\<lparr>c_estado = ''PRESENTE'', c_asesor = ''ana'', c_observacion = None,
             c_ip = None, c_now = 10\<rparr>,
            \<lparr>c_estado = ''PRESENTE'', c_asesor = ''luz'', c_observacion = None,
             c_ip = None, c_now = 11\<rparr>]
           empty_db [Select 0, Select 1, Commit 0, Commit 1])
        1037 123)
   = [(1, ''ana''), (2, ''luz'')]
   \<and> Q_confirmar_asistencia
        (run_schedule 1037 123
           [\<lparr>c_estado = ''PRESENTE'', c_asesor = ''ana'', c_observacion = None,
             c_ip = None, c_now = 10\<rparr>,
            \<lparr>c_estado = ''PRESENTE'', c_asesor = ''luz'', c_observacion = None,
             c_ip = None, c_now = 11\<rparr>]
           empty_db [Select 0, Select 1, Commit 0, Commit 1])
        12 1037 123 ''PRESENTE'' ''eva'' None None
     = Inl MultipleResultsFound
   \<and> fst (confirmar_asistencia default_settings
        \<lparr>gw_requests = (\<lambda>_. []),
         gw_db = run_schedule 1037 123
           [\<lparr>c_estado = ''PRESENTE'', c_asesor = ''ana'', c_observacion = None,
             c_ip = None, c_now = 10\<rparr>,
            \<lparr>c_estado = ''PRESENTE'', c_asesor = ''luz'', c_observacion = None,
             c_ip = None, c_now = 11\<rparr>]
           empty_db [Select 0, Select 1, Commit 0, Commit 1]\<rparr> 0 12 13
        \<lparr>user_id = ''u9'', username = ''eva'', role = STAFF_PUERTA,
         permissions = ROLE_PERMISSIONS STAFF_PUERTA\<rparr>
        \<lparr>registroId = 1037, eventoId = 123, estado = ''PRESENTE'',
         observacion = None\<rparr> None)
     = Inl (InternalError ''Error confirming attendance'')
   \<and> map (\<lambda>a. (as_id a, asesor_verificador a))
     (pair_rows
        (run_schedule 1037 123
           [\<lparr>c_estado = ''PRESENTE'', c_asesor = ''ana'', c_observacion = None,
             c_ip = None, c_now = 10\<rparr>,
            \<lparr>c_estado = ''PRESENTE'', c_asesor = ''luz'', c_observacion = None,
             c_ip = None, c_now = 11\<rparr>]
           empty_db [Select 0, Commit 0, Select 1, Commit 1])
        1037 123)
   = [(1, ''luz'')]"
  by (simp add: run_schedule_def sched_step_def Q_select_def Q_commit_def empty_db_def
        pair_rows_def same_pair_def next_as_id_def truthy_def references_exist_def
        manual_qr_def str_int_def str_nat_digit str_nat_more Let_def
        Q_confirmar_asistencia_def confirmar_asistencia_def
        valid_ConfirmarAsistenciaInput_def require_permission_def check_rate_limit_def
        is_allowed_def tool_limit_def default_settings_def rate_key_def
        S_confirmar_asistencia_def)

text \<open>
  C2. The endpoint never answers with the not-found error: the query function returns
  \<^verbatim>\<open>True\<close> on both of its paths and looks up neither the registration nor the event, so
  the service never returns \<^verbatim>\<open>None\<close>. For the registration 9999, absent from an empty
  store, the call succeeds and leaves an attendance row with the scan code
  \<^verbatim>\<open>manual_9999_123\<close> when the engine does not enforce the foreign keys, and ends as an
  internal error when it does.
\<close>

theorem confirmar_asistencia_never_not_found:
  "(\<forall>settings g now db_now utc_now user input_data client_ip detail rid eid.
      fst (confirmar_asistencia settings g now db_now utc_now user input_data client_ip)
        \<noteq> Inl (NotFound detail rid eid))
   \<and> (\<forall>d db_now utc_now input_data asesor ip d'.
        S_confirmar_asistencia d db_now utc_now input_data asesor ip \<noteq> Inr (None, d'))
   \<and> (\<forall>d db_now r e estado asesor obs ip d'.
        Q_confirmar_asistencia d db_now r e estado asesor obs ip \<noteq> Inr (False, d'))
   \<and> fst (confirmar_asistencia default_settings
        \<lparr>gw_requests = (\<lambda>_. []), gw_db = empty_db\<rparr> 0 5 6
        \<lparr>user_id = ''u7'', username = ''luz'', role = STAFF_PUERTA,
         permissions = ROLE_PERMISSIONS STAFF_PUERTA\<rparr>
        \<lparr>registroId = 9999, eventoId = 123, estado = ''PRESENTE'',
         observacion = None\<rparr> None)
     = Inr \<lparr>out_ok = True, out_timestamp = 6, out_registroId = 9999,
            out_eventoId = 123\<rparr>
   \<and> asistencias_por_sala (gw_db (snd (confirmar_asistencia default_settings
        \<lparr>gw_requests = (\<lambda>_. []), gw_db = empty_db\<rparr> 0 5 6
        \<lparr>user_id = ''u7'', username = ''luz'', role = STAFF_PUERTA,
         permissions = ROLE_PERMISSIONS STAFF_PUERTA\<rparr>
        \<lparr>registroId = 9999, eventoId = 123, estado = ''PRESENTE'',
         observacion = None\<rparr> None)))
     = [\<lparr>as_id = 1, as_registro_id = 9999, as_evento_id = 123,
         qr_escaneado = ''manual_9999_123'', fecha_ingreso = Some 5,
         asesor_verificador = ''luz'', ip_verificacion = None, notas = None\<rparr>]
   \<and> fst (confirmar_asistencia default_settings
        \<lparr>gw_requests = (\<lambda>_. []), gw_db = empty_db\<lparr>fk_enforced := True\<rparr>\<rparr> 0 5 6
        \<lparr>user_id = ''u7'', username = ''luz'', role = STAFF_PUERTA,
         permissions = ROLE_PERMISSIONS STAFF_PUERTA\<rparr>
        \<lparr>registroId = 9999, eventoId = 123, estado = ''PRESENTE'',
         observacion = None\<rparr> None)
     = Inl (InternalError ''Error confirming attendance'')"
proof -
  have ev: "fst (confirmar_asistencia default_settings
        \<lparr>gw_requests = (\<lambda>_. []), gw_db = empty_db\<rparr> 0 5 6
        \<lparr>user_id = ''u7'', username = ''luz'', role = STAFF_PUERTA,
         permissions = ROLE_PERMISSIONS STAFF_PUERTA\<rparr>
        \<lparr>registroId = 9999, eventoId = 123, estado = ''PRESENTE'',
         observacion = None\<rparr> None)
     = Inr \<lparr>out_ok = True, out_timestamp = 6, out_registroId = 9999,
            out_eventoId = 123\<rparr>
   \<and> asistencias_por_sala (gw_db (snd (confirmar_asistencia default_settings
        \<lparr>gw_requests = (\<lambda>_. []), gw_db = empty_db\<rparr> 0 5 6
        \<lparr>user_id = ''u7'', username = ''luz'', role = STAFF_PUERTA,
         permissions = ROLE_PERMISSIONS STAFF_PUERTA\<rparr>
        \<lparr>registroId = 9999, eventoId = 123, estado = ''PRESENTE'',
         observacion = None\<rparr> None)))
     = [\<lparr>as_id = 1, as_registro_id = 9999, as_evento_id = 123,
         qr_escaneado = ''manual_9999_123'', fecha_ingreso = Some 5,
         asesor_verificador = ''luz'', ip_verificacion = None, notas = None\<rparr>]
   \<and> fst (confirmar_asistencia default_settings
        \<lparr>gw_requests = (\<lambda>_. []), gw_db = empty_db\<lparr>fk_enforced := True\<rparr>\<rparr> 0 5 6
        \<lparr>user_id = ''u7'', username = ''luz'', role = STAFF_PUERTA,
         permissions = ROLE_PERMISSIONS STAFF_PUERTA\<rparr>
        \<lparr>registroId = 9999, eventoId = 123, estado = ''PRESENTE'',
         observacion = None\<rparr> None)
     = Inl (InternalError ''Error confirming attendance'')"
    by (simp add: confirmar_asistencia_def valid_ConfirmarAsistenciaInput_def
            require_permission_def check_rate_limit_def is_allowed_def tool_limit_def
            default_settings_def rate_key_def S_confirmar_asistencia_def
            Q_confirmar_asistencia_def empty_db_def Let_def next_as_id_def truthy_def
            references_exist_def manual_qr_def str_int_def str_nat_digit str_nat_more)
  have q: "Q_confirmar_asistencia d db_now r e estado asesor obs ip \<noteq> Inr (False, d')"
    for d db_now r e estado asesor obs ip d'
    by (auto simp: Q_confirmar_asistencia_def Let_def
             split: sum.splits option.splits if_splits)
  have s: "S_confirmar_asistencia d db_now utc_now input_data asesor ip \<noteq> Inr (None, d')"
    for d db_now utc_now input_data asesor ip d'
    using q [of d db_now "registroId input_data" "eventoId input_data"
               "estado input_data" asesor "observacion input_data" ip]
    by (auto simp: S_confirmar_asistencia_def split: sum.splits prod.splits if_splits)
  have t: "fst (confirmar_asistencia settings g now db_now utc_now user input_data client_ip)
        \<noteq> Inl (NotFound detail rid eid)"
    for settings g now db_now utc_now user input_data client_ip detail rid eid
    using s [of "gw_db g" db_now utc_now input_data _ client_ip]
    by (auto simp: confirmar_asistencia_def require_permission_def check_rate_limit_def
                   Let_def
             split: sum.splits prod.splits option.splits if_splits bool.splits)
  from q s t ev show ?thesis by blast
qed

text \<open>
  C9. The status sent with a confirmation plays no part: two calls that differ only in
  the status, each one of the three allowed values, give the same response and the same
  store, at the endpoint, in the service and in the query.
\<close>

theorem confirmation_independent_of_estado:
  assumes "e1 \<in> set [''PRESENTE'', ''AUSENTE'', ''TARDE'']"
      and "e2 \<in> set [''PRESENTE'', ''AUSENTE'', ''TARDE'']"
  shows "confirmar_asistencia settings g now db_now utc_now user
            (input_data\<lparr>estado := e1\<rparr>) client_ip
         = confirmar_asistencia settings g now db_now utc_now user
            (input_data\<lparr>estado := e2\<rparr>) client_ip
       \<and> S_confirmar_asistencia d db_now utc_now (input_data\<lparr>estado := e1\<rparr>) asesor ip
         = S_confirmar_asistencia d db_now utc_now (input_data\<lparr>estado := e2\<rparr>) asesor ip
       \<and> Q_confirmar_asistencia d db_now r e e1 asesor obs ip
         = Q_confirmar_asistencia d db_now r e e2 asesor obs ip"
proof -
  have q: "Q_confirmar_asistencia d db_now r e x asesor obs ip
         = Q_confirmar_asistencia d db_now r e y asesor obs ip"
    for d db_now r e x y asesor obs ip
    by (simp add: Q_confirmar_asistencia_def)
  have s: "S_confirmar_asistencia d db_now utc_now (input_data\<lparr>estado := x\<rparr>) asesor ip
         = S_confirmar_asistencia d db_now utc_now (input_data\<lparr>estado := y\<rparr>) asesor ip"
    for d db_now utc_now x y asesor ip
    using q [of d db_now "registroId input_data" "eventoId input_data" x asesor
               "observacion input_data" ip y]
    by (simp add: S_confirmar_asistencia_def split: sum.splits prod.splits)
  have v: "valid_ConfirmarAsistenciaInput (input_data\<lparr>estado := e1\<rparr>)
         = valid_ConfirmarAsistenciaInput (input_data\<lparr>estado := e2\<rparr>)"
    using assms by (simp add: valid_ConfirmarAsistenciaInput_def)
  have t: "confirmar_asistencia settings g now db_now utc_now user
            (input_data\<lparr>estado := e1\<rparr>) client_ip
         = confirmar_asistencia settings g now db_now utc_now user
            (input_data\<lparr>estado := e2\<rparr>) client_ip"
    unfolding confirmar_asistencia_def v s [of _ _ _ e1 _ _ e2]
    by (simp split: sum.splits prod.splits option.splits)
  from q s t show ?thesis by blast
qed

theorem confirmation_independent_of_estado_witness:
  "''PRESENTE'' \<in> set [''PRESENTE'', ''AUSENTE'', ''TARDE'']
   \<and> ''AUSENTE'' \<in> set [''PRESENTE'', ''AUSENTE'', ''TARDE'']
   \<and> confirmar_asistencia default_settings
        \<lparr>gw_requests = (\<lambda>_. []), gw_db = empty_db\<rparr> 0 5 6
        \<lparr>user_id = ''u7'', username = ''luz'', role = STAFF_PUERTA,
         permissions = ROLE_PERMISSIONS STAFF_PUERTA\<rparr>
        \<lparr>registroId = 1037, eventoId = 123, estado = ''PRESENTE'',
         observacion = None\<rparr> None
     = confirmar_asistencia default_settings
        \<lparr>gw_requests = (\<lambda>_. []), gw_db = empty_db\<rparr> 0 5 6
        \<lparr>user_id = ''u7'', username = ''luz'', role = STAFF_PUERTA,
         permissions = ROLE_PERMISSIONS STAFF_PUERTA\<rparr>
        \<lparr>registroId = 1037, eventoId = 123, estado = ''AUSENTE'',
         observacion = None\<rparr> None
   \<and> fst (confirmar_asistencia default_settings
        \<lparr>gw_requests = (\<lambda>_. []), gw_db = empty_db\<rparr> 0 5 6
        \<lparr>user_id = ''u7'', username = ''luz'', role = STAFF_PUERTA,
         permissions = ROLE_PERMISSIONS STAFF_PUERTA\<rparr>
        \<lparr>registroId = 1037, eventoId = 123, estado = ''AUSENTE'',
         observacion = None\<rparr> None)
     = Inr \<lparr>out_ok = True, out_timestamp = 6, out_registroId = 1037,
            out_eventoId = 123\<rparr>"
proof -
  have a: "''PRESENTE'' \<in> set [''PRESENTE'', ''AUSENTE'', ''TARDE'']" by simp
  have b: "''AUSENTE'' \<in> set [''PRESENTE'', ''AUSENTE'', ''TARDE'']" by simp
  note h = confirmation_independent_of_estado [OF a b,
      of default_settings "\<lparr>gw_requests = (\<lambda>_. []), gw_db = empty_db\<rparr>" 0 5 6
         "\<lparr>user_id = ''u7'', username = ''luz'', role = STAFF_PUERTA,
           permissions = ROLE_PERMISSIONS STAFF_PUERTA\<rparr>"
         "\<lparr>registroId = 1037, eventoId = 123, estado = ''PRESENTE'',
           observacion = None\<rparr>" None, THEN conjunct1]
  have r: "fst (confirmar_asistencia default_settings
        \<lparr>gw_requests = (\<lambda>_. []), gw_db = empty_db\<rparr> 0 5 6
        \<lparr>user_id = ''u7'', username = ''luz'', role = STAFF_PUERTA,
         permissions = ROLE_PERMISSIONS STAFF_PUERTA\<rparr>
        \<lparr>registroId = 1037, eventoId = 123, estado = ''AUSENTE'',
         observacion = None\<rparr> None)
     = Inr \<lparr>out_ok = True, out_timestamp = 6, out_registroId = 1037,
            out_eventoId = 123\<rparr>"
    by (simp add: confirmar_asistencia_def valid_ConfirmarAsistenciaInput_def
          require_permission_def check_rate_limit_def is_allowed_def tool_limit_def
          default_settings_def rate_key_def S_confirmar_asistencia_def
          Q_confirmar_asistencia_def empty_db_def Let_def)
  from h r show ?thesis by simp
qed
section \<open>The registration-status filter is inert\<close>

lemma InscritoInfo_list_estado:
  "InscritoInfo_list items = Inr xs \<Longrightarrow> map in_estado xs = map it_estado items"
proof (induction items arbitrary: xs)
  case Nil
  then show ?case by simp
next
  case (Cons item items)
  then show ?case
    by (auto simp: InscritoInfo_of_def split: sum.splits option.splits)
qed

lemma InscritoInfo_list_length:
  "InscritoInfo_list items = Inr xs \<Longrightarrow> length xs = length items"
proof (induction items arbitrary: xs)
  case Nil
  then show ?case by simp
next
  case (Cons item items)
  then show ?case by (auto split: sum.splits)
qed

lemma by_evento_estado:
  "get_inscritos_by_evento d e est p ps = Inr (total_rows, items) \<Longrightarrow>
     map it_estado items = replicate (length items) ''INSCRITO''"
  by (auto simp: get_inscritos_by_evento_def Let_def inscrito_item_of_def comp_def
                 map_replicate_const
           split: sum.splits)

lemma by_filters_estado:
  "get_inscritos_by_filters d dia s est p ps = Inr (total_rows, items) \<Longrightarrow>
     map it_estado items = replicate (length items) ''INSCRITO''"
  by (auto simp: get_inscritos_by_filters_def Let_def inscrito_item_of_def comp_def
                 map_replicate_const
           split: sum.splits)

lemma S_get_inscritos_estado:
  assumes "S_get_inscritos d i = Inr out"
  shows "map in_estado (go_lista out) = replicate (length (go_lista out)) ''INSCRITO''"
proof -
  from assms obtain total_rows items where
    q: "(if truthy_int (gi_eventoId i)
            then get_inscritos_by_evento d (the (gi_eventoId i))
                   (gi_estadoInscripcion i) (gi_page i) (gi_pageSize i)
            else get_inscritos_by_filters d (gi_dia i) (gi_sala i)
                   (gi_estadoInscripcion i) (gi_page i) (gi_pageSize i)) = Inr (total_rows, items)"
    and l: "InscritoInfo_list items = Inr (go_lista out)"
    unfolding S_get_inscritos_def
    by (auto split: sum.splits prod.splits)
  from q have "map it_estado items = replicate (length items) ''INSCRITO''"
    using by_evento_estado by_filters_estado by (auto split: if_splits)
  with InscritoInfo_list_estado [OF l] InscritoInfo_list_length [OF l]
  show ?thesis by simp
qed

lemma S_get_inscritos_indep:
  "S_get_inscritos d (i\<lparr>gi_estadoInscripcion := a\<rparr>)
   = S_get_inscritos d (i\<lparr>gi_estadoInscripcion := b\<rparr>)"
proof -
  have e: "get_inscritos_by_evento d ev x p ps = get_inscritos_by_evento d ev y p ps"
    for ev x y p ps
    by (simp add: get_inscritos_by_evento_def)
  have f: "get_inscritos_by_filters d dia s x p ps = get_inscritos_by_filters d dia s y p ps"
    for dia s x y p ps
    by (simp add: get_inscritos_by_filters_def)
  show ?thesis
    unfolding S_get_inscritos_def
    using e [of _ a _ _ b] f [of _ _ a _ _ b]
    by (simp split: sum.splits prod.splits)
qed

lemma parse_GetInscritosInput_estado:
  assumes "a \<in> set [None, Some [], Some ''INSCRITO'', Some ''CONFIRMADO'', Some ''CANCELADO'']"
  shows "parse_GetInscritosInput (body\<lparr>gi_estadoInscripcion := a\<rparr>)
         = map_option (\<lambda>i. i\<lparr>gi_estadoInscripcion := empty_string_to_none a\<rparr>)
             (parse_GetInscritosInput (body\<lparr>gi_estadoInscripcion := None\<rparr>))"
  using assms
  by (auto simp: parse_GetInscritosInput_def Let_def empty_string_to_none_def)

text \<open>
  C10. The \<^verbatim>\<open>estadoInscripcion\<close> filter of getInscritos has no effect: two requests that
  differ only in it (absent, empty, or any of the three allowed values) get the same
  response, with the same total and the same rows, at the endpoint, in the service and in
  both queries; and every row of a successful response reports the status
  \<^verbatim>\<open>INSCRITO\<close>.
\<close>

theorem get_inscritos_independent_of_estadoInscripcion:
  assumes "a \<in> set [None, Some [], Some ''INSCRITO'', Some ''CONFIRMADO'', Some ''CANCELADO'']"
      and "b \<in> set [None, Some [], Some ''INSCRITO'', Some ''CONFIRMADO'', Some ''CANCELADO'']"
  shows "get_inscritos settings g now user (body\<lparr>gi_estadoInscripcion := a\<rparr>)
         = get_inscritos settings g now user (body\<lparr>gi_estadoInscripcion := b\<rparr>)
       \<and> S_get_inscritos d (input_data\<lparr>gi_estadoInscripcion := a\<rparr>)
         = S_get_inscritos d (input_data\<lparr>gi_estadoInscripcion := b\<rparr>)
       \<and> get_inscritos_by_evento d ev a p ps = get_inscritos_by_evento d ev b p ps
       \<and> get_inscritos_by_filters d dia s a p ps = get_inscritos_by_filters d dia s b p ps
       \<and> (\<forall>out. fst (get_inscritos settings g now user (body\<lparr>gi_estadoInscripcion := a\<rparr>))
                   = Inr out \<longrightarrow>
              map in_estado (go_lista out)
              = replicate (length (go_lista out)) ''INSCRITO'')"
proof -
  have e: "get_inscritos_by_evento d ev a p ps = get_inscritos_by_evento d ev b p ps"
    by (simp add: get_inscritos_by_evento_def)
  have f: "get_inscritos_by_filters d dia s a p ps = get_inscritos_by_filters d dia s b p ps"
    by (simp add: get_inscritos_by_filters_def)
  have t: "get_inscritos settings g now user (body\<lparr>gi_estadoInscripcion := x\<rparr>)
         = get_inscritos settings g now user (body\<lparr>gi_estadoInscripcion := None\<rparr>)"
    if x: "x \<in> set [None, Some [], Some ''INSCRITO'', Some ''CONFIRMADO'', Some ''CANCELADO'']"
    for x
  proof (cases "parse_GetInscritosInput (body\<lparr>gi_estadoInscripcion := None\<rparr>)")
    case None
    with parse_GetInscritosInput_estado [OF x, of body] show ?thesis
      by (simp add: get_inscritos_def split: sum.splits)
  next
    case (Some i)
    with parse_GetInscritosInput_estado [OF x, of body]
    have px: "parse_GetInscritosInput (body\<lparr>gi_estadoInscripcion := x\<rparr>)
              = Some (i\<lparr>gi_estadoInscripcion := empty_string_to_none x\<rparr>)" by simp
    have "i = i\<lparr>gi_estadoInscripcion := gi_estadoInscripcion i\<rparr>" by simp
    then have "S_get_inscritos (gw_db g) i
             = S_get_inscritos (gw_db g) (i\<lparr>gi_estadoInscripcion := gi_estadoInscripcion i\<rparr>)"
      by simp
    also have "\<dots> = S_get_inscritos (gw_db g) (i\<lparr>gi_estadoInscripcion := empty_string_to_none x\<rparr>)"
      by (rule S_get_inscritos_indep)
    finally have s: "S_get_inscritos (gw_db g) (i\<lparr>gi_estadoInscripcion := empty_string_to_none x\<rparr>)
                   = S_get_inscritos (gw_db g) i" by simp
    show ?thesis by (simp add: get_inscritos_def px Some s split: sum.splits prod.splits)
  qed
  have tool: "get_inscritos settings g now user (body\<lparr>gi_estadoInscripcion := a\<rparr>)
         = get_inscritos settings g now user (body\<lparr>gi_estadoInscripcion := b\<rparr>)"
    using t [OF assms(1)] t [OF assms(2)] by simp
  have est: "map in_estado (go_lista out) = replicate (length (go_lista out)) ''INSCRITO''"
    if "fst (get_inscritos settings g now user (body\<lparr>gi_estadoInscripcion := a\<rparr>)) = Inr out"
    for out
  proof -
    from that obtain i where "S_get_inscritos (gw_db g) i = Inr out"
      by (auto simp: get_inscritos_def split: sum.splits option.splits prod.splits)
    then show ?thesis by (rule S_get_inscritos_estado)
  qed
  from tool S_get_inscritos_indep [where d = d and i = input_data and a = a and b = b] e f est show ?thesis by blast
qed

theorem get_inscritos_independent_of_estadoInscripcion_witness:
  "Some ''CANCELADO'' \<in> set [None, Some [], Some ''INSCRITO'', Some ''CONFIRMADO'',
                               Some ''CANCELADO'']
   \<and> None \<in> set [None, Some [], Some ''INSCRITO'', Some ''CONFIRMADO'', Some ''CANCELADO'']
   \<and> get_inscritos default_settings \<lparr>gw_requests = (\<lambda>_. []), gw_db = sample_db\<rparr> 0
        \<lparr>user_id = ''u1'', username = ''eva'', role = LECTOR,
         permissions = ROLE_PERMISSIONS LECTOR\<rparr>
        \<lparr>gi_eventoId = Some 123, gi_dia = None, gi_sala = None,
         gi_estadoInscripcion = Some ''CANCELADO'', gi_page = 1, gi_pageSize = 20\<rparr>
     = get_inscritos default_settings \<lparr>gw_requests = (\<lambda>_. []), gw_db = sample_db\<rparr> 0
        \<lparr>user_id = ''u1'', username = ''eva'', role = LECTOR,
         permissions = ROLE_PERMISSIONS LECTOR\<rparr>
        \<lparr>gi_eventoId = Some 123, gi_dia = None, gi_sala = None,
         gi_estadoInscripcion = None, gi_page = 1, gi_pageSize = 20\<rparr>
   \<and> fst (get_inscritos default_settings \<lparr>gw_requests = (\<lambda>_. []), gw_db = sample_db\<rparr> 0
        \<lparr>user_id = ''u1'', username = ''eva'', role = LECTOR,
         permissions = ROLE_PERMISSIONS LECTOR\<rparr>
        \<lparr>gi_eventoId = Some 123, gi_dia = None, gi_sala = None,
         gi_estadoInscripcion = Some ''CANCELADO'', gi_page = 1, gi_pageSize = 20\<rparr>)
     = Inr \<lparr>go_total = 2, go_page = 1, go_pageSize = 20,
            go_lista =
              [\<lparr>in_registroId = 2, in_nombre = ''Luz'', in_empresa = Some ''Beta'',
                in_email = ''luz@x.pe'', in_estado = ''INSCRITO'', in_creadoEn = 200\<rparr>,
               \<lparr>in_registroId = 1, in_nombre = ''Ana'', in_empresa = Some ''Acme'',
                in_email = ''ana@x.pe'', in_estado = ''INSCRITO'', in_creadoEn = 100\<rparr>]\<rparr>"
proof -
  have a: "Some ''CANCELADO'' \<in> set [None, Some [], Some ''INSCRITO'', Some ''CONFIRMADO'',
                               Some ''CANCELADO'']" by simp
  have b: "None \<in> set [None, Some [], Some ''INSCRITO'', Some ''CONFIRMADO'',
                       Some ''CANCELADO'']" by simp
  note h = get_inscritos_independent_of_estadoInscripcion [OF a b,
      of default_settings "\<lparr>gw_requests = (\<lambda>_. []), gw_db = sample_db\<rparr>" 0
         "\<lparr>user_id = ''u1'', username = ''eva'', role = LECTOR,
           permissions = ROLE_PERMISSIONS LECTOR\<rparr>"
         "\<lparr>gi_eventoId = Some 123, gi_dia = None, gi_sala = None,
           gi_estadoInscripcion = None, gi_page = 1, gi_pageSize = 20\<rparr>", THEN conjunct1]
  have r: "fst (get_inscritos default_settings \<lparr>gw_requests = (\<lambda>_. []), gw_db = sample_db\<rparr> 0
        \<lparr>user_id = ''u1'', username = ''eva'', role = LECTOR,
         permissions = ROLE_PERMISSIONS LECTOR\<rparr>
        \<lparr>gi_eventoId = Some 123, gi_dia = None, gi_sala = None,
         gi_estadoInscripcion = Some ''CANCELADO'', gi_page = 1, gi_pageSize = 20\<rparr>)
     = Inr \<lparr>go_total = 2, go_page = 1, go_pageSize = 20,
            go_lista =
              [\<lparr>in_registroId = 2, in_nombre = ''Luz'', in_empresa = Some ''Beta'',
                in_email = ''luz@x.pe'', in_estado = ''INSCRITO'', in_creadoEn = 200\<rparr>,
               \<lparr>in_registroId = 1, in_nombre = ''Ana'', in_empresa = Some ''Acme'',
                in_email = ''ana@x.pe'', in_estado = ''INSCRITO'', in_creadoEn = 100\<rparr>]\<rparr>"
    by (simp add: get_inscritos_def require_permission_def parse_GetInscritosInput_def
          empty_string_to_none_def check_rate_limit_def is_allowed_def tool_limit_def
          default_settings_def rate_key_def S_get_inscritos_def truthy_int_def
          get_inscritos_by_evento_def join_registros_def sample_db_def limit_offset_def
          order_by_desc_def inscrito_item_of_def InscritoInfo_of_def Let_def)
  from h r show ?thesis by simp
qed
section \<open>The KPI engine\<close>

lemma kpi_inscritos_raises:
  "kpi_inscritos d granularidad fi ff alias = Inl AttributeError"
  by (simp add: kpi_inscritos_def inscritos_stmt_def mapped_class_join_def)

lemma kpi_tasa_asistencia_raises:
  "kpi_tasa_asistencia d granularidad fi ff = Inl AttributeError"
  by (simp add: kpi_tasa_asistencia_def inscritos_stmt_def mapped_class_join_def)

lemma kpi_no_show_raises:
  "kpi_no_show d granularidad fi ff = Inl AttributeError"
  by (simp add: kpi_no_show_def kpi_tasa_asistencia_raises)

lemma kpi_leads_por_fuente_raises:
  "kpi_leads_por_fuente d granularidad fi ff = Inl AttributeError"
  by (simp add: kpi_leads_por_fuente_def leads_stmt_def mapped_class_join_def)

lemma kpi_eventos_populares_raises:
  "kpi_eventos_populares d granularidad fi ff = Inl AttributeError"
  by (simp add: kpi_eventos_populares_def eventos_stmt_def mapped_class_join_def)

lemma calculate_kpi_None: "calculate_kpi d kpi_name granularidad fi ff = None"
  by (simp add: calculate_kpi_def kpi_inscritos_raises kpi_tasa_asistencia_raises
                kpi_no_show_raises kpi_leads_por_fuente_raises kpi_eventos_populares_raises)

lemma map_filter_None: "List.map_filter (\<lambda>x. None) xs = []"
  by (simp add: List.map_filter_def)

lemma round_half_even_near: "\<bar>of_int (round_half_even x) - x\<bar> \<le> 1 / 2"
proof -
  define f where "f = \<lfloor>x\<rfloor>"
  have a: "of_int f \<le> x" and b: "x < of_int f + 1" unfolding f_def by linarith+
  show ?thesis
    unfolding round_half_even_def Let_def f_def [symmetric] using a b
    by (auto simp: abs_if)
qed

lemma py_round_two_decimals:
  "py_round (VFloat x) 2 = VFloat (of_int (round_half_even (x * 100)) / 100)
   \<and> \<bar>of_int (round_half_even (x * 100)) / 100 - x\<bar> \<le> 1 / 200"
  using round_half_even_near [of "x * 100"]
  by (simp add: py_round_def abs_if field_simps split: if_splits)

lemma tasa_rounding_example:
  "py_round (VFloat (of_int 38 * 100 / of_int 150)) 2 = VFloat (2533 / 100)"
  by (simp add: py_round_def round_half_even_def Let_def)

lemma S_get_estadisticas_parsed:
  assumes "strptime (es_rango_inicio i) = Some fi" and "strptime (es_rango_fin i) = Some ff"
  shows "S_get_estadisticas strptime d i
         = Inr \<lparr>eo_kpis = [], eo_granularidad = es_granularidad i,
                eo_periodo = (es_rango_inicio i, es_rango_fin i)\<rparr>"
  using assms
  by (simp add: S_get_estadisticas_def calculate_kpi_None map_filter_None)

lemma first_call_admitted:
  "check_rate_limit default_settings (\<lambda>_. []) now u tool_name
   = (Inr (), (\<lambda>_. [])(rate_key u tool_name := [now]))"
  by (simp add: check_rate_limit_def is_allowed_def tool_limit_def default_settings_def
                Let_def)

text \<open>
  C6. The attendance rate is never computed. Building the first statement of
  \<^verbatim>\<open>_kpi_tasa_asistencia\<close> raises \<^verbatim>\<open>AttributeError\<close>, \<^verbatim>\<open>_calculate_kpi\<close> catches it and
  returns \<^verbatim>\<open>None\<close>, and the KPI is left out: on a store with 150 registrations and 38
  attendance rows in range a request for \<^verbatim>\<open>tasaAsistencia\<close> is answered with an empty list
  of KPIs, not with the value 25.33.
\<close>

theorem tasa_asistencia_never_computed:
  "kpi_tasa_asistencia d granularidad fecha_inicio fecha_fin = Inl AttributeError
   \<and> calculate_kpi d ''tasaAsistencia'' granularidad fecha_inicio fecha_fin = None
   \<and> fst (get_estadisticas sample_strptime default_settings
            \<lparr>gw_requests = (\<lambda>_. []), gw_db = kpi_db 150 38\<rparr> 0
            \<lparr>user_id = ''u1'', username = ''eva'', role = LECTOR,
             permissions = ROLE_PERMISSIONS LECTOR\<rparr>
            \<lparr>es_granularidad = ''DIA'', es_rango_inicio = ''2025-08-01'',
             es_rango_fin = ''2025-08-31'', es_kpis = [''tasaAsistencia'']\<rparr>)
     = Inr \<lparr>eo_kpis = [], eo_granularidad = ''DIA'',
            eo_periodo = (''2025-08-01'', ''2025-08-31'')\<rparr>"
proof -
  have s: "S_get_estadisticas sample_strptime (kpi_db 150 38)
            \<lparr>es_granularidad = ''DIA'', es_rango_inicio = ''2025-08-01'',
             es_rango_fin = ''2025-08-31'', es_kpis = [''tasaAsistencia'']\<rparr>
           = Inr \<lparr>eo_kpis = [], eo_granularidad = ''DIA'',
                  eo_periodo = (''2025-08-01'', ''2025-08-31'')\<rparr>"
    using S_get_estadisticas_parsed [of sample_strptime _ 1 31 "kpi_db 150 38"]
    by (simp add: sample_strptime_def)
  have e: "fst (get_estadisticas sample_strptime default_settings
            \<lparr>gw_requests = (\<lambda>_. []), gw_db = kpi_db 150 38\<rparr> 0
            \<lparr>user_id = ''u1'', username = ''eva'', role = LECTOR,
             permissions = ROLE_PERMISSIONS LECTOR\<rparr>
            \<lparr>es_granularidad = ''DIA'', es_rango_inicio = ''2025-08-01'',
             es_rango_fin = ''2025-08-31'', es_kpis = [''tasaAsistencia'']\<rparr>)
     = Inr \<lparr>eo_kpis = [], eo_granularidad = ''DIA'',
            eo_periodo = (''2025-08-01'', ''2025-08-31'')\<rparr>"
    by (simp add: get_estadisticas_def require_permission_def
                  valid_GetEstadisticasInput_def valid_kpis_def first_call_admitted s)
  from kpi_tasa_asistencia_raises calculate_kpi_None e show ?thesis by blast
qed

lemma count_order_keeps_engine_order:
  "take 10 (order_by_desc snd [(''Zeta'', 1::int), (''Acme'', 1)])
     = [(''Zeta'', 1), (''Acme'', 1)]
   \<and> \<not> spec_leads_order (take 10 (order_by_desc snd [(''Zeta'', 1::int), (''Acme'', 1)]))"
  by (simp add: order_by_desc_def spec_leads_order_def)

text \<open>
  C7. The leads breakdown is never computed. Building the statement of
  \<^verbatim>\<open>_kpi_leads_por_fuente\<close> raises \<^verbatim>\<open>AttributeError\<close>, \<^verbatim>\<open>_calculate_kpi\<close> catches it and
  returns \<^verbatim>\<open>None\<close>, and the KPI is left out: on a store with registrations of two
  organisations in range a request for \<^verbatim>\<open>leadsPorFuente\<close> is answered with an empty list of
  KPIs.
\<close>

theorem leads_por_fuente_never_computed:
  "kpi_leads_por_fuente d granularidad fecha_inicio fecha_fin = Inl AttributeError
   \<and> calculate_kpi d ''leadsPorFuente'' granularidad fecha_inicio fecha_fin = None
   \<and> fst (get_estadisticas sample_strptime default_settings
            \<lparr>gw_requests = (\<lambda>_. []), gw_db = leads_db\<rparr> 0
            \<lparr>user_id = ''u1'', username = ''eva'', role = LECTOR,
             permissions = ROLE_PERMISSIONS LECTOR\<rparr>
            \<lparr>es_granularidad = ''DIA'', es_rango_inicio = ''2025-08-01'',
             es_rango_fin = ''2025-08-31'', es_kpis = [''leadsPorFuente'']\<rparr>)
     = Inr \<lparr>eo_kpis = [], eo_granularidad = ''DIA'',
            eo_periodo = (''2025-08-01'', ''2025-08-31'')\<rparr>"
proof -
  have s: "S_get_estadisticas sample_strptime leads_db
            \<lparr>es_granularidad = ''DIA'', es_rango_inicio = ''2025-08-01'',
             es_rango_fin = ''2025-08-31'', es_kpis = [''leadsPorFuente'']\<rparr>
           = Inr \<lparr>eo_kpis = [], eo_granularidad = ''DIA'',
                  eo_periodo = (''2025-08-01'', ''2025-08-31'')\<rparr>"
    using S_get_estadisticas_parsed [of sample_strptime _ 1 31 leads_db]
    by (simp add: sample_strptime_def)
  have e: "fst (get_estadisticas sample_strptime default_settings
            \<lparr>gw_requests = (\<lambda>_. []), gw_db = leads_db\<rparr> 0
            \<lparr>user_id = ''u1'', username = ''eva'', role = LECTOR,
             permissions = ROLE_PERMISSIONS LECTOR\<rparr>
            \<lparr>es_granularidad = ''DIA'', es_rango_inicio = ''2025-08-01'',
             es_rango_fin = ''2025-08-31'', es_kpis = [''leadsPorFuente'']\<rparr>)
     = Inr \<lparr>eo_kpis = [], eo_granularidad = ''DIA'',
            eo_periodo = (''2025-08-01'', ''2025-08-31'')\<rparr>"
    by (simp add: get_estadisticas_def require_permission_def
                  valid_GetEstadisticasInput_def valid_kpis_def first_call_admitted s)
  from kpi_leads_por_fuente_raises calculate_kpi_None e show ?thesis by blast
qed




section \<open>The cache and the endpoints\<close>





lemma key_example:
  "get_cache_key ''getEventos''
     [(''sala'', Some ''A''), (''query'', None), (''fechaInicio'', Some ''2025-08-01'')]
   = ''mcp:getEventos:fechaInicio=2025-08-01&sala=A''"
  by (simp add: get_cache_key_def)



end
